theory Spec2Isabelle
  imports Complex_Main
begin

section \<open>JavaScript values reaching the pipeline\<close>

text \<open>
  The extraction pipeline of \<^verbatim>\<open>src/inngest/agent.ts\<close> hands the result of
  \<^verbatim>\<open>JSON.parse\<close> to \<^verbatim>\<open>validateReceiptData\<close>, so the values that function
  receives are JSON values. A number is an IEEE double: the model keeps the finite values
  as rationals and has the four special values of their own. \<open>Fin 0\<close> is \<open>+0\<close>.
  An object is the list of its members in the order of the JSON text; where a key occurs
  twice the last member is the property's value, as \<^verbatim>\<open>JSON.parse\<close> has it.
  Strings are read as ASCII texts: white space and letter case outside ASCII are not
  modelled, so \<^verbatim>\<open>trim\<close> and the conversion to a number leave a no-break space
  (U+00A0) and the other white space of Unicode in place, which the engine strips.
  The call stack is not modelled either: the conversion of an array to a string descends
  into nested arrays as far as they go, where an engine gives up with a
  \<^verbatim>\<open>RangeError\<close> once the nesting exceeds its stack. What is proved below about the
  errors of \<^verbatim>\<open>validateReceiptData\<close> is therefore about inputs the engine converts
  without exhausting its stack.
\<close>

datatype jsnum = NaN | PosInf | NegInf | NegZero | Fin rat

datatype json =
    JNull
  | JBool bool
  | JNum jsnum
  | JStr string
  | JArr "json list"
  | JObj "(string \<times> json) list"

text \<open>
  What a JavaScript \<^verbatim>\<open>throw\<close> carries: an \<^verbatim>\<open>Error\<close> with its message, a
  \<^verbatim>\<open>TypeError\<close> raised by the language itself (its message is the engine's wording,
  shortened here), or a value that is not an \<^verbatim>\<open>Error\<close>, kept as its
  \<^verbatim>\<open>String(...)\<close> text.
\<close>

datatype thrown = Error string | TypeError string | NonError string

text \<open>
  What the function takes from the language runtime and the clock:
  \<^verbatim>\<open>new Date().toISOString().split("T")[0]\<close>, \<^verbatim>\<open>Date.now()\<close>, the decimal
  rendering of a number (\<^verbatim>\<open>Number::toString\<close>), and the rounding of a numeric
  literal's mathematical value to a double.
\<close>

record runtime =
  Date_today :: string
  Date_now :: jsnum
  NumberToString :: "jsnum \<Rightarrow> string"
  RoundMV :: "rat \<Rightarrow> jsnum"

definition bindE :: "'e + 'a \<Rightarrow> ('a \<Rightarrow> 'e + 'b) \<Rightarrow> 'e + 'b" where
  "bindE m f = (case m of Inl e \<Rightarrow> Inl e | Inr x \<Rightarrow> f x)"

fun mapE :: "('a \<Rightarrow> 'e + 'b) \<Rightarrow> 'a list \<Rightarrow> 'e + 'b list" where
  "mapE f [] = Inr []"
| "mapE f (x # xs) = bindE (f x) (\<lambda>y. bindE (mapE f xs) (\<lambda>ys. Inr (y # ys)))"

subsection \<open>Truthiness, \<^verbatim>\<open>typeof\<close>, property reads\<close>

definition num_truthy :: "jsnum \<Rightarrow> bool" where
  "num_truthy n = (n \<noteq> NaN \<and> n \<noteq> NegZero \<and> n \<noteq> Fin 0)"

text \<open>\<open>None\<close> is \<^verbatim>\<open>undefined\<close>: what reading an absent property gives.\<close>

fun truthy :: "json option \<Rightarrow> bool" where
  "truthy None = False"
| "truthy (Some JNull) = False"
| "truthy (Some (JBool b)) = b"
| "truthy (Some (JNum n)) = num_truthy n"
| "truthy (Some (JStr s)) = (s \<noteq> [])"
| "truthy (Some (JArr xs)) = True"
| "truthy (Some (JObj kvs)) = True"

definition falsy :: "json option \<Rightarrow> bool" where
  "falsy v = (\<not> truthy v)"

fun typeof :: "json \<Rightarrow> string" where
  "typeof JNull = ''object''"
| "typeof (JBool b) = ''boolean''"
| "typeof (JNum n) = ''number''"
| "typeof (JStr s) = ''string''"
| "typeof (JArr xs) = ''object''"
| "typeof (JObj kvs) = ''object''"

text \<open>
  \<^verbatim>\<open>v.k\<close> for the property names this program reads (merchant, transaction, totals,
  items, name, address, contact, date, receipt_number, payment_method, quantity,
  unitPrice, totalPrice, subtotal, tax, total, currency): none of them is a property of
  the prototypes of booleans, numbers, strings or arrays, so only an object can have one.
  Reading a property of \<^verbatim>\<open>null\<close> throws.
\<close>

fun Get :: "json \<Rightarrow> string \<Rightarrow> thrown + json option" where
  "Get JNull k = Inl (TypeError ''Cannot read properties of null'')"
| "Get (JObj kvs) k = Inr (map_of (rev kvs) k)"
| "Get v k = Inr None"

text \<open>\<^verbatim>\<open>a || b\<close> with a JSON value or undefined on the left.\<close>

definition or_else :: "json option \<Rightarrow> json \<Rightarrow> json" where
  "or_else v d = (case v of None \<Rightarrow> d | Some x \<Rightarrow> if truthy (Some x) then x else d)"

text \<open>\<^verbatim>\<open>n || d\<close> with a number on the left.\<close>

definition num_or :: "jsnum \<Rightarrow> jsnum \<Rightarrow> jsnum" where
  "num_or n d = (if num_truthy n then n else d)"

subsection \<open>\<^verbatim>\<open>String(v)\<close>, \<^verbatim>\<open>trim\<close>, \<^verbatim>\<open>toUpperCase\<close>\<close>

fun join_strings :: "(thrown + string) list \<Rightarrow> thrown + string" where
  "join_strings [] = Inr []"
| "join_strings [r] = r"
| "join_strings (r # rs) =
     bindE r (\<lambda>s. bindE (join_strings rs) (\<lambda>t. Inr (s @ '','' @ t)))"

text \<open>
  \<^verbatim>\<open>ToString\<close> of the language. An array is joined with commas, \<^verbatim>\<open>null\<close>
  elements as empty strings. A parsed object has no callable property of its own: with
  an own \<^verbatim>\<open>toString\<close> member the inherited method is hidden, \<^verbatim>\<open>valueOf\<close>
  gives back the object, and the conversion throws; without one the inherited method
  answers \<^verbatim>\<open>[object Object]\<close>.
\<close>

fun ToString :: "runtime \<Rightarrow> json \<Rightarrow> thrown + string" where
  "ToString rt JNull = Inr ''null''"
| "ToString rt (JBool b) = Inr (if b then ''true'' else ''false'')"
| "ToString rt (JNum n) = Inr (NumberToString rt n)"
| "ToString rt (JStr s) = Inr s"
| "ToString rt (JArr xs) =
     join_strings (map (\<lambda>x. if x = JNull then Inr [] else ToString rt x) xs)"
| "ToString rt (JObj kvs) =
     (if map_of (rev kvs) ''toString'' = None then Inr ''[object Object]''
      else Inl (TypeError ''Cannot convert object to primitive value''))"

definition is_ws :: "char \<Rightarrow> bool" where
  "is_ws c = (c \<in> set [CHR 0x09, CHR 0x0A, CHR 0x0B, CHR 0x0C, CHR 0x0D, CHR '' ''])"

definition trim :: "string \<Rightarrow> string" where
  "trim s = rev (dropWhile is_ws (rev (dropWhile is_ws s)))"

definition upper_char :: "char \<Rightarrow> char" where
  "upper_char c =
     (case map_of (zip ''abcdefghijklmnopqrstuvwxyz'' ''ABCDEFGHIJKLMNOPQRSTUVWXYZ'') c of
        None \<Rightarrow> c | Some u \<Rightarrow> u)"

definition toUpperCase :: "string \<Rightarrow> string" where
  "toUpperCase s = map upper_char s"

subsection \<open>\<^verbatim>\<open>Number(v)\<close>\<close>

definition is_digit :: "char \<Rightarrow> bool" where
  "is_digit c = (c \<in> set ''0123456789'')"

definition digit_value :: "char \<Rightarrow> nat option" where
  "digit_value c =
     map_of (zip ''0123456789abcdefABCDEF''
       [0, 1, 2, 3, 4, 5, 6, 7, 8, 9, 10, 11, 12, 13, 14, 15, 10, 11, 12, 13, 14, 15]) c"

fun digits_from :: "nat \<Rightarrow> nat \<Rightarrow> string \<Rightarrow> nat option" where
  "digits_from r acc [] = Some acc"
| "digits_from r acc (c # cs) =
     (case digit_value c of
        None \<Rightarrow> None
      | Some d \<Rightarrow> if d < r then digits_from r (acc * r + d) cs else None)"

text \<open>A non-empty run of digits of radix \<open>r\<close>, as a number.\<close>

definition digits_value :: "nat \<Rightarrow> string \<Rightarrow> nat option" where
  "digits_value r cs = (if cs = [] then None else digits_from r 0 cs)"

definition nat_of_digits :: "string \<Rightarrow> nat" where
  "nat_of_digits cs = (case digits_from 10 0 cs of None \<Rightarrow> 0 | Some n \<Rightarrow> n)"

text \<open>The exponent part after the \<^verbatim>\<open>e\<close>: an optional sign and digits.\<close>

definition ExponentPart :: "string \<Rightarrow> (bool \<times> nat) option" where
  "ExponentPart s =
     (case s of
        [] \<Rightarrow> None
      | c # cs \<Rightarrow>
          if c = CHR ''-'' then map_option (Pair True) (digits_value 10 cs)
          else if c = CHR ''+'' then map_option (Pair False) (digits_value 10 cs)
          else map_option (Pair False) (digits_value 10 s))"

text \<open>
  \<^verbatim>\<open>StrUnsignedDecimalLiteral\<close> without \<^verbatim>\<open>Infinity\<close>: digits, an optional
  fraction, an optional exponent, with a digit before or after the point. The result is
  the mathematical value.
\<close>

definition StrUnsignedDecimalLiteral :: "string \<Rightarrow> rat option" where
  "StrUnsignedDecimalLiteral s =
     (let ip = takeWhile is_digit s;
          r1 = dropWhile is_digit s;
          has_dot = (case r1 of [] \<Rightarrow> False | c # cs \<Rightarrow> c = CHR ''.'');
          fp = (if has_dot then takeWhile is_digit (tl r1) else []);
          r2 = (if has_dot then dropWhile is_digit (tl r1) else r1);
          mant = of_nat (nat_of_digits (ip @ fp)) / 10 ^ length fp
      in if ip = [] \<and> fp = [] then None
         else (case r2 of
                 [] \<Rightarrow> Some mant
               | c # cs \<Rightarrow>
                   if c = CHR ''e'' \<or> c = CHR ''E'' then
                     (case ExponentPart cs of
                        None \<Rightarrow> None
                      | Some (neg, n) \<Rightarrow>
                          Some (if neg then mant / 10 ^ n else mant * 10 ^ n))
                   else None))"

fun negate :: "jsnum \<Rightarrow> jsnum" where
  "negate NaN = NaN"
| "negate PosInf = NegInf"
| "negate NegInf = PosInf"
| "negate NegZero = Fin 0"
| "negate (Fin q) = (if q = 0 then NegZero else Fin (- q))"

definition radix_prefix :: "string \<Rightarrow> nat option" where
  "radix_prefix t =
     (case t of
        c # x # ds \<Rightarrow>
          if c = CHR ''0'' then
            (if x = CHR ''x'' \<or> x = CHR ''X'' then Some 16
             else if x = CHR ''o'' \<or> x = CHR ''O'' then Some 8
             else if x = CHR ''b'' \<or> x = CHR ''B'' then Some 2
             else None)
          else None
      | _ \<Rightarrow> None)"

text \<open>
  \<^verbatim>\<open>StringToNumber\<close>: the trimmed text is empty (\<open>+0\<close>), a hexadecimal, octal or
  binary integer literal, or a signed decimal literal or \<^verbatim>\<open>Infinity\<close>; anything
  else is \<^verbatim>\<open>NaN\<close>.
\<close>

definition StringToNumber :: "runtime \<Rightarrow> string \<Rightarrow> jsnum" where
  "StringToNumber rt s =
     (let t = trim s in
      if t = [] then Fin 0
      else (case radix_prefix t of
              Some r \<Rightarrow>
                (case digits_value r (drop 2 t) of
                   None \<Rightarrow> NaN
                 | Some n \<Rightarrow> RoundMV rt (of_nat n))
            | None \<Rightarrow>
                (let neg = (hd t = CHR ''-'');
                     u = (if hd t = CHR ''-'' \<or> hd t = CHR ''+'' then tl t else t)
                 in if u = ''Infinity'' then (if neg then NegInf else PosInf)
                    else (case StrUnsignedDecimalLiteral u of
                            None \<Rightarrow> NaN
                          | Some q \<Rightarrow>
                              if neg then negate (RoundMV rt q) else RoundMV rt q))))"

text \<open>
  \<^verbatim>\<open>ToNumber\<close>: an array or object is first made a string, by the same methods as
  in \<open>ToString\<close>.
\<close>

fun ToNumber :: "runtime \<Rightarrow> json option \<Rightarrow> thrown + jsnum" where
  "ToNumber rt None = Inr NaN"
| "ToNumber rt (Some JNull) = Inr (Fin 0)"
| "ToNumber rt (Some (JBool b)) = Inr (Fin (if b then 1 else 0))"
| "ToNumber rt (Some (JNum n)) = Inr n"
| "ToNumber rt (Some (JStr s)) = Inr (StringToNumber rt s)"
| "ToNumber rt (Some v) = bindE (ToString rt v) (\<lambda>s. Inr (StringToNumber rt s))"

section \<open>The schema normalizer: \<^verbatim>\<open>validateReceiptData\<close>\<close>

record Merchant =
  name :: string
  address :: string
  contact :: string

record Transaction =
  date :: string
  receipt_number :: string
  payment_method :: string

record ReceiptItem =
  item_name :: string
  quantity :: jsnum
  unitPrice :: jsnum
  totalPrice :: jsnum

record Totals =
  subtotal :: jsnum
  tax :: jsnum
  total_amount :: jsnum
  currency :: string

record ReceiptData =
  merchant :: Merchant
  transaction :: Transaction
  items :: "ReceiptItem list"
  totals :: Totals

text \<open>The two idioms of the source: \<^verbatim>\<open>String(o.k || d)\<close> and \<^verbatim>\<open>Number(o.k) || d\<close>.\<close>

definition String_or :: "runtime \<Rightarrow> json \<Rightarrow> string \<Rightarrow> string \<Rightarrow> thrown + string" where
  "String_or rt obj k d = bindE (Get obj k) (\<lambda>v. ToString rt (or_else v (JStr d)))"

definition Number_or :: "runtime \<Rightarrow> json \<Rightarrow> string \<Rightarrow> jsnum \<Rightarrow> thrown + jsnum" where
  "Number_or rt obj k d =
     bindE (Get obj k) (\<lambda>v. bindE (ToNumber rt v) (\<lambda>n. Inr (num_or n d)))"

text \<open>The callback of \<^verbatim>\<open>d.items.map\<close> (lines 63 to 70).\<close>

definition normalize_item :: "runtime \<Rightarrow> json \<Rightarrow> thrown + ReceiptItem" where
  "normalize_item rt item =
     bindE (String_or rt item ''name'' ''Item'') (\<lambda>n.
     bindE (Number_or rt item ''quantity'' (Fin 1)) (\<lambda>q.
     bindE (Number_or rt item ''unitPrice'' (Fin 0)) (\<lambda>u.
     bindE (Number_or rt item ''totalPrice'' (Fin 0)) (\<lambda>t.
       Inr \<lparr>item_name = trim n, quantity = q, unitPrice = u, totalPrice = t\<rparr>))))"

definition normalize_merchant :: "runtime \<Rightarrow> json \<Rightarrow> thrown + Merchant" where
  "normalize_merchant rt m =
     bindE (String_or rt m ''name'' ''Unknown Merchant'') (\<lambda>n.
     bindE (String_or rt m ''address'' []) (\<lambda>a.
     bindE (String_or rt m ''contact'' []) (\<lambda>c.
       Inr \<lparr>name = trim n, address = trim a, contact = trim c\<rparr>)))"

definition normalize_transaction :: "runtime \<Rightarrow> json \<Rightarrow> thrown + Transaction" where
  "normalize_transaction rt t =
     bindE (String_or rt t ''date'' (Date_today rt)) (\<lambda>d.
     bindE (String_or rt t ''receipt_number'' (''REC'' @ NumberToString rt (Date_now rt))) (\<lambda>r.
     bindE (String_or rt t ''payment_method'' ''Unknown'') (\<lambda>p.
       Inr \<lparr>date = trim d, receipt_number = trim r, payment_method = trim p\<rparr>)))"

definition normalize_items :: "runtime \<Rightarrow> json option \<Rightarrow> thrown + ReceiptItem list" where
  "normalize_items rt v =
     (case v of Some (JArr xs) \<Rightarrow> mapE (normalize_item rt) xs | _ \<Rightarrow> Inr [])"

definition normalize_totals :: "runtime \<Rightarrow> json \<Rightarrow> thrown + Totals" where
  "normalize_totals rt t =
     bindE (Number_or rt t ''subtotal'' (Fin 0)) (\<lambda>s.
     bindE (Number_or rt t ''tax'' (Fin 0)) (\<lambda>x.
     bindE (Number_or rt t ''total'' (Fin 0)) (\<lambda>g.
     bindE (String_or rt t ''currency'' ''USD'') (\<lambda>c.
       Inr \<lparr>subtotal = s, tax = x, total_amount = g, currency = toUpperCase c\<rparr>))))"

definition validateReceiptData :: "runtime \<Rightarrow> json \<Rightarrow> thrown + ReceiptData" where
  "validateReceiptData rt data =
     (if falsy (Some data) \<or> typeof data \<noteq> ''object''
      then Inl (Error ''Invalid receipt data structure'')
      else
        bindE (Get data ''merchant'') (\<lambda>dm.
        bindE (Get data ''transaction'') (\<lambda>dt.
        bindE (Get data ''totals'') (\<lambda>ds.
        bindE (normalize_merchant rt (or_else dm (JObj []))) (\<lambda>m.
        bindE (normalize_transaction rt (or_else dt (JObj []))) (\<lambda>t.
        bindE (Get data ''items'') (\<lambda>di.
        bindE (normalize_items rt di) (\<lambda>is.
        bindE (normalize_totals rt (or_else ds (JObj []))) (\<lambda>s.
          Inr \<lparr>merchant = m, transaction = t, items = is, totals = s\<rparr>)))))))))"

section \<open>The backoff executor: \<^verbatim>\<open>retryWithBackoff\<close>\<close>

text \<open>
  What the steps of the job do to the outside world, in the order they do it: console
  output (by level), waits (\<^verbatim>\<open>setTimeout\<close>, in milliseconds), the HTTP request for
  the document, the two kinds of request to the AI provider, the database mutation and
  the usage report.
\<close>

datatype level = Log | Warn | Err

record MutationArgs =
  arg_id :: string
  fileDisplayName :: string
  merchantName :: string
  merchantAddress :: string
  merchantContact :: string
  transactionDate :: string
  transactionAmount :: jsnum
  receiptSummary :: string
  arg_currency :: string
  arg_items :: "ReceiptItem list"

datatype event =
    Console level
  | Sleep int
  | FetchPdf
  | ProbeProvider
  | GenerateContent string
  | Mutation MutationArgs
  | Track string

text \<open>How an awaited promise settles.\<close>

datatype 'a outcome = Resolved 'a | Rejected thrown

text \<open>
  The operation handed to \<^verbatim>\<open>retryWithBackoff\<close> is a function of the number of
  calls made before: each call gives the events it causes and how it settles. The state
  of a run counts the calls, lists the delays passed to \<^verbatim>\<open>setTimeout\<close>, and keeps
  the events.
\<close>

record retry_state =
  calls :: nat
  delays :: "int list"
  trace :: "event list"

text \<open>\<^verbatim>\<open>error instanceof Error ? error : new Error(String(error))\<close>\<close>

fun to_Error :: "thrown \<Rightarrow> thrown" where
  "to_Error (NonError s) = Error s"
| "to_Error e = e"

text \<open>\<^verbatim>\<open>error instanceof Error ? error.message : String(error)\<close>\<close>

fun message :: "thrown \<Rightarrow> string" where
  "message (Error m) = m"
| "message (TypeError m) = m"
| "message (NonError s) = s"

fun startsWith :: "string \<Rightarrow> string \<Rightarrow> bool" where
  "startsWith s [] = True"
| "startsWith [] (c # cs) = False"
| "startsWith (x # xs) (c # cs) = (x = c \<and> startsWith xs cs)"

fun includes_str :: "string \<Rightarrow> string \<Rightarrow> bool" where
  "includes_str [] t = (t = [])"
| "includes_str (x # xs) t = (startsWith (x # xs) t \<or> includes_str xs t)"

definition isRateLimit :: "string \<Rightarrow> bool" where
  "isRateLimit msg =
     (includes_str msg ''429'' \<or> includes_str msg ''rate'' \<or> includes_str msg ''quota'')"

text \<open>Lines 104 to 106: the delay after the failure of attempt \<open>attempt\<close>.\<close>

definition delay_for :: "int \<Rightarrow> nat \<Rightarrow> thrown \<Rightarrow> int" where
  "delay_for baseDelayMs attempt lastError =
     (let delayMs = baseDelayMs * 2 ^ attempt
      in if isRateLimit (message lastError) then max delayMs 10000 else delayMs)"

function retry_loop ::
  "(nat \<Rightarrow> event list \<times> 'a outcome) \<Rightarrow> int \<Rightarrow> int \<Rightarrow> nat \<Rightarrow> thrown option \<Rightarrow> retry_state
     \<Rightarrow> (thrown + 'a) \<times> retry_state" where
  "retry_loop fn maxRetries baseDelayMs attempt lastError st =
     (if int attempt < maxRetries then
        (case fn (calls st) of
           (evs, Resolved v) \<Rightarrow> (Inr v, st\<lparr>calls := calls st + 1, trace := trace st @ evs\<rparr>)
         | (evs, Rejected error) \<Rightarrow>
             (let st1 = st\<lparr>calls := calls st + 1, trace := trace st @ evs\<rparr>;
                  e = to_Error error;
                  st2 = (if int attempt < maxRetries - 1
                         then st1\<lparr>delays := delays st1 @ [delay_for baseDelayMs attempt e],
                                  trace := trace st1 @
                                    [Console Warn, Sleep (delay_for baseDelayMs attempt e)]\<rparr>
                         else st1)
              in retry_loop fn maxRetries baseDelayMs (attempt + 1) (Some e) st2))
      else (Inl (case lastError of Some e \<Rightarrow> e | None \<Rightarrow> Error ''Max retries exceeded''), st))"
  by pat_completeness auto
termination
  by (relation "measure (\<lambda>(fn, maxRetries, baseDelayMs, attempt, lastError, st).
        nat (maxRetries - int attempt))") auto

declare retry_loop.simps [simp del]

definition retryWithBackoff ::
  "(nat \<Rightarrow> event list \<times> 'a outcome) \<Rightarrow> int \<Rightarrow> int \<Rightarrow> (thrown + 'a) \<times> retry_state" where
  "retryWithBackoff fn maxRetries baseDelayMs =
     retry_loop fn maxRetries baseDelayMs 0 None \<lparr>calls = 0, delays = [], trace = []\<rparr>"

text \<open>
  For the statements: the error a call leaves in \<^verbatim>\<open>lastError\<close>, and the delay
  computed after call \<open>i\<close> when it fails.
\<close>

definition failure_of :: "'a outcome \<Rightarrow> thrown option" where
  "failure_of r = (case r of Resolved v \<Rightarrow> None | Rejected e \<Rightarrow> Some (to_Error e))"

definition computed_delay :: "int \<Rightarrow> (nat \<Rightarrow> event list \<times> 'a outcome) \<Rightarrow> nat \<Rightarrow> int" where
  "computed_delay baseDelayMs fn i =
     (case failure_of (snd (fn i)) of None \<Rightarrow> 0 | Some e \<Rightarrow> delay_for baseDelayMs i e)"

section \<open>The save step (lines 369 to 418)\<close>

record SaveResult =
  success :: bool
  userId :: string
  receiptId :: string
  res_merchantName :: string
  totalAmount :: jsnum
  res_currency :: string
  itemCount :: nat

definition mutation_args :: "runtime \<Rightarrow> string \<Rightarrow> ReceiptData \<Rightarrow> MutationArgs" where
  "mutation_args rt rid x =
     \<lparr>arg_id = rid,
      fileDisplayName = (if name (merchant x) = [] then ''Receipt'' else name (merchant x)),
      merchantName = name (merchant x),
      merchantAddress = address (merchant x),
      merchantContact = contact (merchant x),
      transactionDate = date (transaction x),
      transactionAmount = total_amount (totals x),
      receiptSummary =
        ''Receipt from '' @ name (merchant x) @ '' on '' @ date (transaction x) @ '' for '' @
        currency (totals x) @ '' '' @ NumberToString rt (total_amount (totals x)) @ ''. '' @
        NumberToString rt (Fin (of_nat (length (items x)))) @ '' item(s) purchased.'',
      arg_currency = currency (totals x),
      arg_items = items x\<rparr>"

text \<open>
  The step takes how the mutation and the usage report settle. Both calls stand in one
  \<^verbatim>\<open>try\<close> whose \<^verbatim>\<open>catch\<close> logs the error and throws it again.
\<close>

definition save_to_database ::
  "runtime \<Rightarrow> string outcome \<Rightarrow> unit outcome \<Rightarrow> string \<Rightarrow> ReceiptData
     \<Rightarrow> (thrown + SaveResult) \<times> event list" where
  "save_to_database rt mutation track rid x =
     (case mutation of
        Rejected e \<Rightarrow> (Inl e, [Console Log, Mutation (mutation_args rt rid x), Console Err])
      | Resolved uid \<Rightarrow>
          (case track of
             Rejected e \<Rightarrow>
               (Inl e,
                [Console Log, Mutation (mutation_args rt rid x), Console Log, Track uid,
                 Console Err])
           | Resolved u \<Rightarrow>
               (Inr \<lparr>success = True, userId = uid, receiptId = rid,
                     res_merchantName = name (merchant x),
                     totalAmount = total_amount (totals x),
                     res_currency = currency (totals x),
                     itemCount = length (items x)\<rparr>,
                [Console Log, Mutation (mutation_args rt rid x), Console Log, Track uid,
                 Console Log])))"

section \<open>The extraction step (lines 132 to 366)\<close>

record Response =
  ok :: bool
  status :: nat
  statusText :: string
  arrayBuffer :: "string outcome"

text \<open>
  What the step meets outside: how each fetch of the document settles, the two
  environment variables, how the connectivity test's fetch settles, how each
  \<^verbatim>\<open>generateContent\<close> settles (a response whose \<^verbatim>\<open>text()\<close> returns or
  throws), and \<^verbatim>\<open>JSON.parse\<close> (\<open>Inl\<close>: the message of its SyntaxError).
\<close>

record extract_env =
  pdf_fetch :: "nat \<Rightarrow> Response outcome"
  GEMINI_API_KEY :: "string option"
  GEMINI_MODEL :: "string option"
  probe_fetch :: "Response outcome"
  generateContent :: "nat \<Rightarrow> (thrown + string) outcome"
  JSON_parse :: "string \<Rightarrow> string + json"

text \<open>The operation of lines 137 to 153.\<close>

definition fetch_pdf_op :: "runtime \<Rightarrow> extract_env \<Rightarrow> nat \<Rightarrow> event list \<times> string outcome" where
  "fetch_pdf_op rt env i =
     ([FetchPdf],
      case pdf_fetch env i of
        Rejected e \<Rightarrow> Rejected e
      | Resolved pdfResponse \<Rightarrow>
          if ok pdfResponse then arrayBuffer pdfResponse
          else Rejected (Error (''PDF fetch failed: '' @
                 NumberToString rt (Fin (of_nat (status pdfResponse))) @ '' '' @
                 statusText pdfResponse)))"

definition generate_op ::
  "extract_env \<Rightarrow> string \<Rightarrow> nat \<Rightarrow> event list \<times> (thrown + string) outcome" where
  "generate_op env modelName i = ([GenerateContent modelName], generateContent env i)"

text \<open>
  Lines 190 to 226: the connectivity test never fails the step; the error thrown for a
  401 or 403 is caught by the test's own \<^verbatim>\<open>catch\<close>.
\<close>

definition probe_events :: "Response outcome \<Rightarrow> event list" where
  "probe_events r =
     (case r of
        Resolved testResponse \<Rightarrow>
          if ok testResponse then [Console Log]
          else Console Warn #
                 (if status testResponse = 401 \<or> status testResponse = 403 then [Console Warn]
                  else if status testResponse = 429 then [Console Warn, Sleep 5000]
                  else [])
      | Rejected e \<Rightarrow>
          (if includes_str (message e) ''timeout'' \<or> includes_str (message e) ''ENOTFOUND''
           then [Console Err, Console Err, Console Err] else []) @ [Console Warn])"

text \<open>Lines 294 to 324.\<close>

definition classify_generate_error :: "thrown \<Rightarrow> thrown" where
  "classify_generate_error error =
     (let errorMsg = message error in
      if includes_str errorMsg ''401'' \<or> includes_str errorMsg ''Unauthorized'' then
        Error ''GEMINI_API_KEY is invalid or expired. Get a new key from https://makersuite.google.com/app/apikey''
      else if includes_str errorMsg ''403'' \<or> includes_str errorMsg ''Forbidden'' then
        Error ''GEMINI_API_KEY lacks permissions or quota is exhausted. Check your API quota.''
      else if includes_str errorMsg ''429'' \<or> includes_str errorMsg ''Rate limit'' then
        Error ''Rate limited by Gemini API. Waiting before retry...''
      else if includes_str errorMsg ''Error fetching'' then
        Error ''Cannot reach Gemini API. Check firewall/network access to generativelanguage.googleapis.com''
      else error)"

text \<open>
  \<^verbatim>\<open>text.replace(/PAT\n?/g, "")\<close> for a literal, non-empty \<open>PAT\<close>: every occurrence,
  left to right, with the line feed after it when there is one.
\<close>

definition skip_newline :: "string \<Rightarrow> string" where
  "skip_newline r = (case r of [] \<Rightarrow> [] | c # cs \<Rightarrow> if c = CHR 0x0A then cs else r)"

function remove_fence :: "string \<Rightarrow> string \<Rightarrow> string" where
  "remove_fence pat [] = []"
| "remove_fence pat (c # cs) =
     (if pat \<noteq> [] \<and> startsWith (c # cs) pat
      then remove_fence pat (skip_newline (drop (length pat) (c # cs)))
      else c # remove_fence pat cs)"
  by pat_completeness auto
termination
proof (relation "measure (\<lambda>(pat, s). length s)", goal_cases)
  case 1
  show ?case by simp
next
  case (2 pat c cs)
  have "length (skip_newline r) \<le> length r" for r
    by (simp add: skip_newline_def split: list.split)
  then have "length (skip_newline (drop (length pat) (c # cs))) \<le>
      length (drop (length pat) (c # cs))" .
  moreover have "length (drop (length pat) (c # cs)) < length (c # cs)"
    using 2 by (cases pat) simp_all
  ultimately show ?case by simp
next
  case (3 pat c cs)
  show ?case by simp
qed

text \<open>Lines 332 to 335.\<close>

definition cleanedText :: "string \<Rightarrow> string" where
  "cleanedText text_in = trim (remove_fence ''```'' (remove_fence ''```json'' text_in))"

text \<open>\<^verbatim>\<open>!process.env.GEMINI_API_KEY\<close>: the variable is unset or empty.\<close>

definition key_missing :: "extract_env \<Rightarrow> bool" where
  "key_missing env = (case GEMINI_API_KEY env of None \<Rightarrow> True | Some k \<Rightarrow> k = [])"

definition modelName :: "extract_env \<Rightarrow> string" where
  "modelName env =
     (case GEMINI_MODEL env of
        None \<Rightarrow> ''models/gemini-2.5-flash''
      | Some m \<Rightarrow> if m = [] then ''models/gemini-2.5-flash'' else m)"

text \<open>
  Lines 186 to 360, reached with the key present: the connectivity test, the request to
  the model under \<^verbatim>\<open>retryWithBackoff\<close> with its defaults, the response text, its
  parsing and normalization. The result comes with the events added to those before.
\<close>

definition extract_with_key ::
  "runtime \<Rightarrow> extract_env \<Rightarrow> (thrown + ReceiptData) \<times> event list" where
  "extract_with_key rt env =
     (let tr1 = [Console Log, ProbeProvider] @ probe_events (probe_fetch env) @
                [Console Log, Console Log, Console Log];
          (result, st) = retryWithBackoff (generate_op env (modelName env)) 5 2000;
          tr2 = tr1 @ trace st
      in case result of
           Inl error \<Rightarrow> (Inl (classify_generate_error error), tr2 @ [Console Err])
         | Inr response \<Rightarrow>
             (case response of
                Inl e \<Rightarrow> (Inl e, tr2)
              | Inr text_out \<Rightarrow>
                  (case JSON_parse env (cleanedText text_out) of
                     Inl parseError \<Rightarrow>
                       (Inl (Error (''AI response is not valid JSON: '' @ parseError)),
                        tr2 @ [Console Log, Console Err])
                   | Inr parsedData \<Rightarrow>
                       (case validateReceiptData rt parsedData of
                          Inl e \<Rightarrow> (Inl e, tr2 @ [Console Log])
                        | Inr receiptData \<Rightarrow> (Inr receiptData, tr2 @ [Console Log, Console Log])))))"

text \<open>
  The whole step: the fetch of the document under \<^verbatim>\<open>retryWithBackoff\<close>, the checks
  of the bytes, the check of the key, then the part above. The outer \<^verbatim>\<open>catch\<close>
  logs every error and throws it again. Loading the provider's module (line 178) is taken
  to succeed.
\<close>

definition extract_pdf_data ::
  "runtime \<Rightarrow> extract_env \<Rightarrow> (thrown + ReceiptData) \<times> event list" where
  "extract_pdf_data rt env =
     (let (fetched, st) = retryWithBackoff (fetch_pdf_op rt env) 5 2000;
          tr1 = Console Log # trace st
      in case fetched of
           Inl e \<Rightarrow> (Inl e, tr1 @ [Console Err])
         | Inr pdfBuffer \<Rightarrow>
             (let tr2 = tr1 @ [Console Log] in
              if length pdfBuffer = 0 then (Inl (Error ''PDF file is empty''), tr2 @ [Console Err])
              else
                (let tr3 = tr2 @ (if startsWith (take 4 pdfBuffer) ''%PDF'' then []
                                  else [Console Warn])
                 in if key_missing env then
                      (Inl (Error ''GEMINI_API_KEY environment variable is not configured. Set it in .env.local''),
                       tr3 @ [Console Err])
                    else
                      (case extract_with_key rt env of
                         (Inl e, tr4) \<Rightarrow> (Inl e, tr3 @ tr4 @ [Console Err])
                       | (Inr receiptData, tr4) \<Rightarrow> (Inr receiptData, tr3 @ tr4)))))"

section \<open>Predicates for the statements\<close>

text \<open>A result that, when it is an error, is a \<^verbatim>\<open>TypeError\<close> of the language.\<close>

fun is_TypeError :: "thrown \<Rightarrow> bool" where
  "is_TypeError (TypeError m) = True"
| "is_TypeError e = False"

definition throws_only_TypeError :: "thrown + 'a \<Rightarrow> bool" where
  "throws_only_TypeError r = (case r of Inl e \<Rightarrow> is_TypeError e | Inr x \<Rightarrow> True)"

text \<open>
  When the normalizer returns. \<open>convertible v\<close>: \<^verbatim>\<open>String(v)\<close> returns, which is
  also when \<^verbatim>\<open>Number(v)\<close> returns. \<open>field_convertible obj k\<close>: \<open>obj\<close> is not
  \<^verbatim>\<open>null\<close> and \<open>obj.k\<close> is absent or convertible. \<open>section_of d k\<close> is
  \<^verbatim>\<open>d.k || {}\<close>. \<open>normalizable d\<close>: the root is an object or an array, the fields
  read from the three sections are convertible, and so are the four fields of every
  element of \<^verbatim>\<open>d.items\<close> when that is an array.
\<close>

fun convertible :: "json \<Rightarrow> bool" where
  "convertible (JArr xs) = list_all (\<lambda>x. x = JNull \<or> convertible x) xs"
| "convertible (JObj kvs) = (map_of (rev kvs) ''toString'' = None)"
| "convertible v = True"

definition field_convertible :: "json \<Rightarrow> string \<Rightarrow> bool" where
  "field_convertible obj k =
     (case Get obj k of Inl e \<Rightarrow> False | Inr None \<Rightarrow> True | Inr (Some v) \<Rightarrow> convertible v)"

definition item_convertible :: "json \<Rightarrow> bool" where
  "item_convertible item =
     (field_convertible item ''name'' \<and> field_convertible item ''quantity'' \<and>
      field_convertible item ''unitPrice'' \<and> field_convertible item ''totalPrice'')"

definition section_of :: "json \<Rightarrow> string \<Rightarrow> json" where
  "section_of d k = (case Get d k of Inl e \<Rightarrow> JObj [] | Inr v \<Rightarrow> or_else v (JObj []))"

definition normalizable :: "json \<Rightarrow> bool" where
  "normalizable d =
     ((case d of JArr xs \<Rightarrow> True | JObj kvs \<Rightarrow> True | _ \<Rightarrow> False) \<and>
      field_convertible (section_of d ''merchant'') ''name'' \<and>
      field_convertible (section_of d ''merchant'') ''address'' \<and>
      field_convertible (section_of d ''merchant'') ''contact'' \<and>
      field_convertible (section_of d ''transaction'') ''date'' \<and>
      field_convertible (section_of d ''transaction'') ''receipt_number'' \<and>
      field_convertible (section_of d ''transaction'') ''payment_method'' \<and>
      (case Get d ''items'' of Inr (Some (JArr xs)) \<Rightarrow> list_all item_convertible xs | _ \<Rightarrow> True) \<and>
      field_convertible (section_of d ''totals'') ''subtotal'' \<and>
      field_convertible (section_of d ''totals'') ''tax'' \<and>
      field_convertible (section_of d ''totals'') ''total'' \<and>
      field_convertible (section_of d ''totals'') ''currency'')"

definition returns :: "'e + 'a \<Rightarrow> bool" where
  "returns m = (case m of Inl e \<Rightarrow> False | Inr x \<Rightarrow> True)"

section \<open>Concrete inputs\<close>

text \<open>
  A runtime to run the model on concrete inputs: the clock reads 2025-11-12, a literal's
  value is kept as it is, and numbers are printed as \<^verbatim>\<open>Number::toString\<close> prints
  integers below \<open>10\<^sup>2\<^sup>1\<close> and decimals of a few digits.
\<close>

definition digit_char :: "int \<Rightarrow> char" where
  "digit_char d =
     (case map_of (zip [0, 1, 2, 3, 4, 5, 6, 7, 8, 9] ''0123456789'') d of
        None \<Rightarrow> CHR ''?'' | Some c \<Rightarrow> c)"

function show_int :: "int \<Rightarrow> string" where
  "show_int n =
     (if n < 10 then [digit_char n] else show_int (n div 10) @ [digit_char (n mod 10)])"
  by pat_completeness auto
termination
  by (relation "measure nat") auto

declare show_int.simps [simp del]

fun frac_digits :: "nat \<Rightarrow> rat \<Rightarrow> string" where
  "frac_digits 0 r = []"
| "frac_digits (Suc k) r =
     (if r = 0 then []
      else digit_char \<lfloor>r * 10\<rfloor> # frac_digits k (r * 10 - of_int \<lfloor>r * 10\<rfloor>))"

definition show_rat :: "rat \<Rightarrow> string" where
  "show_rat q =
     (let a = \<bar>q\<bar>; i = \<lfloor>a\<rfloor>; f = a - of_int i
      in (if q < 0 then ''-'' else []) @ show_int i @
         (if f = 0 then [] else ''.'' @ frac_digits 20 f))"

fun show_num :: "jsnum \<Rightarrow> string" where
  "show_num NaN = ''NaN''"
| "show_num PosInf = ''Infinity''"
| "show_num NegInf = ''-Infinity''"
| "show_num NegZero = ''0''"
| "show_num (Fin q) = show_rat q"

definition sample_runtime :: runtime where
  "sample_runtime =
     \<lparr>Date_today = ''2025-11-12'', Date_now = Fin 1762905600000,
      NumberToString = show_num, RoundMV = Fin\<rparr>"

text \<open>
  Two operations for \<^verbatim>\<open>retryWithBackoff\<close>: one fails twice, the second time with a
  rate limit, and then succeeds; one rejects every time with a value that is not an
  \<^verbatim>\<open>Error\<close>.
\<close>

definition flaky_fetch :: "nat \<Rightarrow> event list \<times> string outcome" where
  "flaky_fetch i =
     ([FetchPdf],
      if i = 0 then Rejected (Error ''fetch failed'')
      else if i = 1 then Rejected (Error ''PDF fetch failed: 429 Too Many Requests'')
      else Resolved ''%PDF-1.4'')"


text \<open>
  An environment of the extraction step without the key: the document is served at the
  first request, and the provider would answer with an empty JSON object in a code fence.
\<close>

definition fenced_empty_object :: string where
  "fenced_empty_object = ''```json'' @ [CHR 0x0A] @ ''{}'' @ [CHR 0x0A] @ ''```''"

definition env_without_key :: extract_env where
  "env_without_key =
     \<lparr>pdf_fetch = (\<lambda>i. Resolved \<lparr>ok = True, status = 200, statusText = ''OK'',
                                   arrayBuffer = Resolved ''%PDF-1.4''\<rparr>),
      GEMINI_API_KEY = None,
      GEMINI_MODEL = None,
      probe_fetch = Resolved \<lparr>ok = True, status = 200, statusText = ''OK'',
                               arrayBuffer = Resolved []\<rparr>,
      generateContent = (\<lambda>i. Resolved (Inr fenced_empty_object)),
      JSON_parse = (\<lambda>s. if s = ''{}'' then Inr (JObj []) else Inl ''Unexpected token'')\<rparr>"

text \<open>A normalized receipt and three parsed values for the normalizer.\<close>

definition sample_receipt :: ReceiptData where
  "sample_receipt =
     \<lparr>merchant = \<lparr>name = ''Acme'', address = [], contact = []\<rparr>,
      transaction = \<lparr>date = ''2025-11-12'', receipt_number = ''REC1'', payment_method = ''Cash''\<rparr>,
      items = [],
      totals = \<lparr>subtotal = Fin 0, tax = Fin 0, total_amount = Fin (25 / 2), currency = ''USD''\<rparr>\<rparr>"

definition negative_items_input :: json where
  "negative_items_input =
     JObj [(''items'', JArr [JObj [(''quantity'', JNum (Fin (- 5 / 2))), (''unitPrice'', JNum (Fin (- 1)))],
                             JObj [(''quantity'', JStr ''abc'')]])]"

definition zero_quantity_input :: json where
  "zero_quantity_input =
     JObj [(''items'', JArr [JObj [(''quantity'', JNum (Fin 0))],
                             JObj [(''quantity'', JStr ''0'')],
                             JObj [(''quantity'', JNum NegZero)]])]"

definition dated_input :: json where
  "dated_input =
     JObj [(''transaction'', JObj [(''date'', JStr ''2025-01-31''), (''receipt_number'', JStr ''R-77'')])]"

section \<open>Lemmas on the error monad and on what the normalizer throws\<close>

lemma bindE_Inr_iff: "bindE m f = Inr r \<longleftrightarrow> (\<exists>x. m = Inr x \<and> f x = Inr r)"
  by (cases m) (simp_all add: bindE_def)

lemma bindE_Inl_iff: "bindE m f = Inl e \<longleftrightarrow> m = Inl e \<or> (\<exists>x. m = Inr x \<and> f x = Inl e)"
  by (cases m) (simp_all add: bindE_def)

lemma bindE_simps [simp]: "bindE (Inl e) f = Inl e" "bindE (Inr x) f = f x"
  by (simp_all add: bindE_def)

lemma tot_bindE: "throws_only_TypeError m \<Longrightarrow> (\<And>x. m = Inr x \<Longrightarrow> throws_only_TypeError (f x)) \<Longrightarrow> throws_only_TypeError (bindE m f)"
  by (cases m) (simp_all add: throws_only_TypeError_def)

lemma tot_Inr [simp]: "throws_only_TypeError (Inr x)"
  by (simp add: throws_only_TypeError_def)

lemma tot_Get: "throws_only_TypeError (Get v k)"
  by (cases v) (simp_all add: throws_only_TypeError_def)

lemma tot_join: "(\<And>r. r \<in> set rs \<Longrightarrow> throws_only_TypeError r) \<Longrightarrow> throws_only_TypeError (join_strings rs)"
  by (induction rs rule: join_strings.induct) (auto intro!: tot_bindE)

lemma tot_ToString: "throws_only_TypeError (ToString rt v)"
proof (induction rt v rule: ToString.induct)
  case (5 rt xs)
  show ?case
    unfolding ToString.simps
    by (rule tot_join) (use 5 in auto)
qed (simp_all add: throws_only_TypeError_def)

lemma tot_ToNumber: "throws_only_TypeError (ToNumber rt v)"
  by (cases "(rt, v)" rule: ToNumber.cases)
     (simp_all del: ToString.simps add: tot_bindE tot_ToString)

lemma tot_String_or: "throws_only_TypeError (String_or rt obj k d)"
  unfolding String_or_def by (intro tot_bindE tot_Get tot_ToString)

lemma tot_Number_or: "throws_only_TypeError (Number_or rt obj k d)"
  unfolding Number_or_def by (intro tot_bindE tot_Get tot_ToNumber tot_Inr)

lemma tot_mapE: "(\<And>x. x \<in> set xs \<Longrightarrow> throws_only_TypeError (f x)) \<Longrightarrow> throws_only_TypeError (mapE f xs)"
  by (induction xs) (auto intro!: tot_bindE)

lemma tot_item: "throws_only_TypeError (normalize_item rt item)"
  unfolding normalize_item_def by (intro tot_bindE tot_String_or tot_Number_or tot_Inr)

lemma tot_merchant: "throws_only_TypeError (normalize_merchant rt m)"
  unfolding normalize_merchant_def by (intro tot_bindE tot_String_or tot_Inr)

lemma tot_transaction: "throws_only_TypeError (normalize_transaction rt m)"
  unfolding normalize_transaction_def by (intro tot_bindE tot_String_or tot_Inr)

lemma tot_totals: "throws_only_TypeError (normalize_totals rt m)"
  unfolding normalize_totals_def by (intro tot_bindE tot_String_or tot_Number_or tot_Inr)

lemma tot_items: "throws_only_TypeError (normalize_items rt v)"
  unfolding normalize_items_def
  by (auto split: option.splits json.splits intro!: tot_mapE tot_item)

lemma tot_validate:
  assumes "truthy (Some d)" and "typeof d = ''object''"
  shows "throws_only_TypeError (validateReceiptData rt d)"
proof -
  have c: "\<not> (falsy (Some d) \<or> typeof d \<noteq> ''object'')"
    using assms by (simp add: falsy_def)
  show ?thesis
    unfolding validateReceiptData_def if_not_P [OF c]
    by (intro tot_bindE tot_Get tot_merchant tot_transaction tot_items tot_totals tot_Inr)
qed

section \<open>The normalizer\<close>

lemma validate_array: "validateReceiptData rt (JArr xs) = validateReceiptData rt (JObj [])"
  by (simp add: validateReceiptData_def falsy_def)

text \<open>
  C1, as the code has it. The guard of \<^verbatim>\<open>validateReceiptData\<close> is
  \<^verbatim>\<open>!data || typeof data !== "object"\<close>: the error
  \<^verbatim>\<open>Invalid receipt data structure\<close> is raised exactly when the root is
  \<^verbatim>\<open>null\<close>, a boolean, a number or a string. An array is an object for
  \<^verbatim>\<open>typeof\<close>: an array root passes the guard and is normalized as the object
  without members is.
\<close>

theorem invalid_shape_exactly_non_object:
  "(validateReceiptData rt d = Inl (Error ''Invalid receipt data structure'') \<longleftrightarrow>
      (case d of JArr xs \<Rightarrow> False | JObj kvs \<Rightarrow> False | _ \<Rightarrow> True)) \<and>
   validateReceiptData rt (JArr ys) = validateReceiptData rt (JObj [])"
proof (rule conjI)
  show "validateReceiptData rt (JArr ys) = validateReceiptData rt (JObj [])"
    by (rule validate_array)
next
  show "validateReceiptData rt d = Inl (Error ''Invalid receipt data structure'') \<longleftrightarrow>
      (case d of JArr xs \<Rightarrow> False | JObj kvs \<Rightarrow> False | _ \<Rightarrow> True)"
  proof (cases "truthy (Some d) \<and> typeof d = ''object''")
    case True
    then have "throws_only_TypeError (validateReceiptData rt d)"
      by (simp add: tot_validate)
    moreover from True have "case d of JArr xs \<Rightarrow> True | JObj kvs \<Rightarrow> True | _ \<Rightarrow> False"
      by (cases d) simp_all
    ultimately show ?thesis
      by (cases d) (auto simp: throws_only_TypeError_def)
  next
    case False
    then have "validateReceiptData rt d = Inl (Error ''Invalid receipt data structure'')"
      by (auto simp: validateReceiptData_def falsy_def)
    moreover from False have "case d of JArr xs \<Rightarrow> False | JObj kvs \<Rightarrow> False | _ \<Rightarrow> True"
      by (cases d) simp_all
    ultimately show ?thesis by simp
  qed
qed

text \<open>C1 as stated fails at the empty array: no error, the record of all defaults.\<close>

theorem array_root_is_accepted:
  "validateReceiptData sample_runtime (JArr []) =
     Inr \<lparr>merchant = \<lparr>name = ''Unknown Merchant'', address = [], contact = []\<rparr>,
          transaction = \<lparr>date = ''2025-11-12'', receipt_number = ''REC1762905600000'',
                         payment_method = ''Unknown''\<rparr>,
          items = [],
          totals = \<lparr>subtotal = Fin 0, tax = Fin 0, total_amount = Fin 0, currency = ''USD''\<rparr>\<rparr>"
  by code_simp

text \<open>The statement of C1 at a number, at \<^verbatim>\<open>null\<close> and at the empty object.\<close>

theorem invalid_shape_witness:
  "validateReceiptData sample_runtime (JNum (Fin 5)) = Inl (Error ''Invalid receipt data structure'') \<and>
   validateReceiptData sample_runtime JNull = Inl (Error ''Invalid receipt data structure'') \<and>
   validateReceiptData sample_runtime (JObj []) \<noteq> Inl (Error ''Invalid receipt data structure'')"
  using invalid_shape_exactly_non_object [where rt = sample_runtime and d = "JNum (Fin 5)"]
    invalid_shape_exactly_non_object [where rt = sample_runtime and d = JNull]
    invalid_shape_exactly_non_object [where rt = sample_runtime and d = "JObj []"]
  by simp

subsection \<open>Items\<close>

lemma mapE_Inr_nth:
  "mapE f xs = Inr ys \<Longrightarrow> length ys = length xs \<and> (\<forall>i<length xs. f (xs ! i) = Inr (ys ! i))"
proof (induction xs arbitrary: ys)
  case Nil
  then show ?case by simp
next
  case (Cons x xs)
  from Cons.prems obtain y zs where y: "f x = Inr y" and zs: "mapE f xs = Inr zs" and ys: "ys = y # zs"
    by (auto simp: bindE_Inr_iff)
  from Cons.IH [OF zs] y ys show ?case
    by (auto simp: nth_Cons')
qed

lemma validate_Inr_items:
  "validateReceiptData rt d = Inr r \<Longrightarrow> \<exists>v. Get d ''items'' = Inr v \<and> normalize_items rt v = Inr (items r)"
  by (auto simp: validateReceiptData_def bindE_Inr_iff split: if_splits)

lemma Number_or_Inr:
  "Number_or rt obj k d = Inr m \<longleftrightarrow> (\<exists>v n. Get obj k = Inr v \<and> ToNumber rt v = Inr n \<and> m = num_or n d)"
  by (auto simp: Number_or_def bindE_Inr_iff)

lemma normalize_item_Inr:
  "normalize_item rt item = Inr it \<Longrightarrow>
     Number_or rt item ''quantity'' (Fin 1) = Inr (quantity it) \<and>
     Number_or rt item ''unitPrice'' (Fin 0) = Inr (unitPrice it) \<and>
     Number_or rt item ''totalPrice'' (Fin 0) = Inr (totalPrice it)"
  by (auto simp: normalize_item_def bindE_Inr_iff)

lemma items_nth:
  assumes "validateReceiptData rt d = Inr r" and "Get d ''items'' = Inr (Some (JArr xs))" and "i < length xs"
  shows "i < length (items r) \<and> normalize_item rt (xs ! i) = Inr (items r ! i)"
proof -
  from validate_Inr_items [OF assms(1)] assms(2)
  have "mapE (normalize_item rt) xs = Inr (items r)"
    by (simp add: normalize_items_def split: option.split json.split)
  from mapE_Inr_nth [OF this] assms(3) show ?thesis by simp
qed

lemma items_member:
  assumes "validateReceiptData rt d = Inr r" and "it \<in> set (items r)"
  shows "\<exists>item. normalize_item rt item = Inr it"
proof -
  from validate_Inr_items [OF assms(1)] obtain v where v: "normalize_items rt v = Inr (items r)"
    by blast
  show ?thesis
  proof (cases "\<exists>xs. v = Some (JArr xs)")
    case True
    then obtain xs where "mapE (normalize_item rt) xs = Inr (items r)"
      using v by (auto simp: normalize_items_def)
    from mapE_Inr_nth [OF this] assms(2) show ?thesis
      by (metis in_set_conv_nth)
  next
    case False
    then have "items r = []"
      using v by (auto simp: normalize_items_def split: option.splits json.splits)
    with assms(2) show ?thesis by simp
  qed
qed

lemma num_or_1: "num_truthy (num_or n (Fin 1))"
  by (simp add: num_or_def num_truthy_def)

lemma num_or_0: "num_or n (Fin 0) \<noteq> NaN \<and> num_or n (Fin 0) \<noteq> NegZero"
  by (simp add: num_or_def num_truthy_def)

lemma num_or_keep: "num_truthy n \<Longrightarrow> num_or n d = n"
  by (simp add: num_or_def)

lemma negative_items_run:
  "validateReceiptData sample_runtime negative_items_input =
     Inr \<lparr>merchant = \<lparr>name = ''Unknown Merchant'', address = [], contact = []\<rparr>,
          transaction = \<lparr>date = ''2025-11-12'', receipt_number = ''REC1762905600000'',
                         payment_method = ''Unknown''\<rparr>,
          items = [\<lparr>item_name = ''Item'', quantity = Fin (- 5 / 2), unitPrice = Fin (- 1),
                     totalPrice = Fin 0\<rparr>,
                   \<lparr>item_name = ''Item'', quantity = Fin 1, unitPrice = Fin 0,
                     totalPrice = Fin 0\<rparr>],
          totals = \<lparr>subtotal = Fin 0, tax = Fin 0, total_amount = Fin 0, currency = ''USD''\<rparr>\<rparr>"
  by code_simp

text \<open>
  C8, as the code has it. \<^verbatim>\<open>Number(item.quantity) || 1\<close>,
  \<^verbatim>\<open>Number(item.unitPrice) || 0\<close> and \<^verbatim>\<open>Number(item.totalPrice) || 0\<close>
  replace only a falsy number. First: every returned item has a quantity that is neither
  \<^verbatim>\<open>NaN\<close> nor zero, and prices that are neither \<^verbatim>\<open>NaN\<close> nor \<open>-0\<close>.
  Second: a numeric input that is not zero is kept as it is, negative or fractional:
  nothing rounds or clamps it. Third, the value substituted: with \<open>n\<close> the number that
  \<^verbatim>\<open>Number(...)\<close> makes of the element's member, the returned quantity is \<open>1\<close>
  when \<open>n\<close> is \<^verbatim>\<open>NaN\<close>, \<open>0\<close> or \<open>-0\<close> and \<open>n\<close> otherwise, and the returned
  unit price and total price are \<open>0\<close> when \<open>n\<close> is \<^verbatim>\<open>NaN\<close>, \<open>0\<close> or \<open>-0\<close>
  and \<open>n\<close> otherwise.
\<close>

theorem item_numbers_truthy_or_default:
  assumes "validateReceiptData rt d = Inr r"
  shows "(\<forall>it \<in> set (items r).
            num_truthy (quantity it) \<and> unitPrice it \<noteq> NaN \<and> unitPrice it \<noteq> NegZero \<and>
            totalPrice it \<noteq> NaN \<and> totalPrice it \<noteq> NegZero) \<and>
         (\<forall>xs i k n. Get d ''items'' = Inr (Some (JArr xs)) \<and> i < length xs \<and>
            Get (xs ! i) k = Inr (Some (JNum n)) \<and> num_truthy n \<longrightarrow>
            i < length (items r) \<and>
            (k = ''quantity'' \<longrightarrow> quantity (items r ! i) = n) \<and>
            (k = ''unitPrice'' \<longrightarrow> unitPrice (items r ! i) = n) \<and>
            (k = ''totalPrice'' \<longrightarrow> totalPrice (items r ! i) = n)) \<and>
         (\<forall>xs i. Get d ''items'' = Inr (Some (JArr xs)) \<and> i < length xs \<longrightarrow>
            i < length (items r) \<and>
            (\<exists>v n. Get (xs ! i) ''quantity'' = Inr v \<and> ToNumber rt v = Inr n \<and>
               quantity (items r ! i) = (if n = NaN \<or> n = NegZero \<or> n = Fin 0 then Fin 1 else n)) \<and>
            (\<exists>v n. Get (xs ! i) ''unitPrice'' = Inr v \<and> ToNumber rt v = Inr n \<and>
               unitPrice (items r ! i) = (if n = NaN \<or> n = NegZero \<or> n = Fin 0 then Fin 0 else n)) \<and>
            (\<exists>v n. Get (xs ! i) ''totalPrice'' = Inr v \<and> ToNumber rt v = Inr n \<and>
               totalPrice (items r ! i) = (if n = NaN \<or> n = NegZero \<or> n = Fin 0 then Fin 0 else n)))"
proof -
  have c1: "\<forall>it \<in> set (items r).
            num_truthy (quantity it) \<and> unitPrice it \<noteq> NaN \<and> unitPrice it \<noteq> NegZero \<and>
            totalPrice it \<noteq> NaN \<and> totalPrice it \<noteq> NegZero"
  proof (rule ballI)
    fix it assume "it \<in> set (items r)"
    then obtain item where "normalize_item rt item = Inr it"
      using items_member [OF assms] by blast
    from normalize_item_Inr [OF this]
    obtain a b c where "quantity it = num_or a (Fin 1)" "unitPrice it = num_or b (Fin 0)"
        "totalPrice it = num_or c (Fin 0)"
      by (auto simp: Number_or_Inr)
    then show "num_truthy (quantity it) \<and> unitPrice it \<noteq> NaN \<and> unitPrice it \<noteq> NegZero \<and>
            totalPrice it \<noteq> NaN \<and> totalPrice it \<noteq> NegZero"
      by (simp add: num_or_1 num_or_0)
  qed
  have c2: "\<forall>xs i k n. Get d ''items'' = Inr (Some (JArr xs)) \<and> i < length xs \<and>
            Get (xs ! i) k = Inr (Some (JNum n)) \<and> num_truthy n \<longrightarrow>
            i < length (items r) \<and>
            (k = ''quantity'' \<longrightarrow> quantity (items r ! i) = n) \<and>
            (k = ''unitPrice'' \<longrightarrow> unitPrice (items r ! i) = n) \<and>
            (k = ''totalPrice'' \<longrightarrow> totalPrice (items r ! i) = n)"
  proof (intro allI impI)
    fix xs i k n
    assume h: "Get d ''items'' = Inr (Some (JArr xs)) \<and> i < length xs \<and>
            Get (xs ! i) k = Inr (Some (JNum n)) \<and> num_truthy n"
    from items_nth [OF assms, of xs i] h
    have len: "i < length (items r)" and it: "normalize_item rt (xs ! i) = Inr (items r ! i)"
      by simp_all
    from normalize_item_Inr [OF it] h
    have "k = ''quantity'' \<longrightarrow> quantity (items r ! i) = n"
      and "k = ''unitPrice'' \<longrightarrow> unitPrice (items r ! i) = n"
      and "k = ''totalPrice'' \<longrightarrow> totalPrice (items r ! i) = n"
      by (auto simp: Number_or_Inr num_or_keep)
    with len show "i < length (items r) \<and>
            (k = ''quantity'' \<longrightarrow> quantity (items r ! i) = n) \<and>
            (k = ''unitPrice'' \<longrightarrow> unitPrice (items r ! i) = n) \<and>
            (k = ''totalPrice'' \<longrightarrow> totalPrice (items r ! i) = n)"
      by blast
  qed
  have c3: "\<forall>xs i. Get d ''items'' = Inr (Some (JArr xs)) \<and> i < length xs \<longrightarrow>
            i < length (items r) \<and>
            (\<exists>v n. Get (xs ! i) ''quantity'' = Inr v \<and> ToNumber rt v = Inr n \<and>
               quantity (items r ! i) = (if n = NaN \<or> n = NegZero \<or> n = Fin 0 then Fin 1 else n)) \<and>
            (\<exists>v n. Get (xs ! i) ''unitPrice'' = Inr v \<and> ToNumber rt v = Inr n \<and>
               unitPrice (items r ! i) = (if n = NaN \<or> n = NegZero \<or> n = Fin 0 then Fin 0 else n)) \<and>
            (\<exists>v n. Get (xs ! i) ''totalPrice'' = Inr v \<and> ToNumber rt v = Inr n \<and>
               totalPrice (items r ! i) = (if n = NaN \<or> n = NegZero \<or> n = Fin 0 then Fin 0 else n))"
  proof (intro allI impI)
    fix xs i
    assume h: "Get d ''items'' = Inr (Some (JArr xs)) \<and> i < length xs"
    from items_nth [OF assms, of xs i] h
    have len: "i < length (items r)" and it: "normalize_item rt (xs ! i) = Inr (items r ! i)"
      by simp_all
    have sub: "num_or n dflt = (if n = NaN \<or> n = NegZero \<or> n = Fin 0 then dflt else n)" for n dflt
      by (simp add: num_or_def num_truthy_def)
    from normalize_item_Inr [OF it]
    have q: "\<exists>v n. Get (xs ! i) ''quantity'' = Inr v \<and> ToNumber rt v = Inr n \<and>
               quantity (items r ! i) = (if n = NaN \<or> n = NegZero \<or> n = Fin 0 then Fin 1 else n)"
      and u: "\<exists>v n. Get (xs ! i) ''unitPrice'' = Inr v \<and> ToNumber rt v = Inr n \<and>
               unitPrice (items r ! i) = (if n = NaN \<or> n = NegZero \<or> n = Fin 0 then Fin 0 else n)"
      and t: "\<exists>v n. Get (xs ! i) ''totalPrice'' = Inr v \<and> ToNumber rt v = Inr n \<and>
               totalPrice (items r ! i) = (if n = NaN \<or> n = NegZero \<or> n = Fin 0 then Fin 0 else n)"
      unfolding Number_or_Inr sub by blast+
    from len q u t show "i < length (items r) \<and>
            (\<exists>v n. Get (xs ! i) ''quantity'' = Inr v \<and> ToNumber rt v = Inr n \<and>
               quantity (items r ! i) = (if n = NaN \<or> n = NegZero \<or> n = Fin 0 then Fin 1 else n)) \<and>
            (\<exists>v n. Get (xs ! i) ''unitPrice'' = Inr v \<and> ToNumber rt v = Inr n \<and>
               unitPrice (items r ! i) = (if n = NaN \<or> n = NegZero \<or> n = Fin 0 then Fin 0 else n)) \<and>
            (\<exists>v n. Get (xs ! i) ''totalPrice'' = Inr v \<and> ToNumber rt v = Inr n \<and>
               totalPrice (items r ! i) = (if n = NaN \<or> n = NegZero \<or> n = Fin 0 then Fin 0 else n))"
      by (intro conjI)
  qed
  from c1 c2 c3 show ?thesis by (intro conjI)
qed

text \<open>
  C8 as stated fails at an item with quantity \<open>-2.5\<close> and unit price \<open>-1\<close>: both are
  returned unchanged.
\<close>

theorem negative_fraction_quantity_kept:
  "validateReceiptData sample_runtime negative_items_input =
     Inr \<lparr>merchant = \<lparr>name = ''Unknown Merchant'', address = [], contact = []\<rparr>,
          transaction = \<lparr>date = ''2025-11-12'', receipt_number = ''REC1762905600000'',
                         payment_method = ''Unknown''\<rparr>,
          items = [\<lparr>item_name = ''Item'', quantity = Fin (- 5 / 2), unitPrice = Fin (- 1),
                     totalPrice = Fin 0\<rparr>,
                   \<lparr>item_name = ''Item'', quantity = Fin 1, unitPrice = Fin 0,
                     totalPrice = Fin 0\<rparr>],
          totals = \<lparr>subtotal = Fin 0, tax = Fin 0, total_amount = Fin 0, currency = ''USD''\<rparr>\<rparr>"
  by code_simp

text \<open>
  The statement of C8 at the same input: the first item keeps its quantity and unit price
  and gets the total price \<open>0\<close>; the second, whose quantity is \<^verbatim>\<open>"abc"\<close>, gets
  the quantity \<open>1\<close> and the prices \<open>0\<close>.
\<close>

theorem item_numbers_witness:
  "\<exists>r. validateReceiptData sample_runtime negative_items_input = Inr r \<and>
       list_all (\<lambda>it. num_truthy (quantity it) \<and> unitPrice it \<noteq> NaN \<and> totalPrice it \<noteq> NaN) (items r) \<and>
       quantity (items r ! 0) = Fin (- 5 / 2) \<and> unitPrice (items r ! 0) = Fin (- 1) \<and>
       totalPrice (items r ! 0) = Fin 0 \<and>
       quantity (items r ! 1) = Fin 1 \<and> unitPrice (items r ! 1) = Fin 0 \<and>
       totalPrice (items r ! 1) = Fin 0"
proof -
  let ?xs = "[JObj [(''quantity'', JNum (Fin (- 5 / 2))), (''unitPrice'', JNum (Fin (- 1)))],
              JObj [(''quantity'', JStr ''abc'')]]"
  have g: "Get negative_items_input ''items'' = Inr (Some (JArr ?xs))"
    by (simp add: negative_items_input_def)
  have q: "Get (?xs ! 0) ''quantity'' = Inr (Some (JNum (Fin (- 5 / 2))))"
    and u: "Get (?xs ! 0) ''unitPrice'' = Inr (Some (JNum (Fin (- 1))))"
    by simp_all
  have t: "num_truthy (Fin (- 5 / 2))" "num_truthy (Fin (- 1))"
    by (simp_all add: num_truthy_def)
  from item_numbers_truthy_or_default [OF negative_items_run] g q u t
  have "list_all (\<lambda>it. num_truthy (quantity it) \<and> unitPrice it \<noteq> NaN \<and> totalPrice it \<noteq> NaN)
      (items (projr (validateReceiptData sample_runtime negative_items_input)))"
    by (simp add: list_all_iff negative_items_run)
  then show ?thesis
    by (simp add: negative_items_run)
qed

lemma zero_quantity_run:
  "validateReceiptData sample_runtime zero_quantity_input =
     Inr \<lparr>merchant = \<lparr>name = ''Unknown Merchant'', address = [], contact = []\<rparr>,
          transaction = \<lparr>date = ''2025-11-12'', receipt_number = ''REC1762905600000'',
                         payment_method = ''Unknown''\<rparr>,
          items = [\<lparr>item_name = ''Item'', quantity = Fin 1, unitPrice = Fin 0, totalPrice = Fin 0\<rparr>,
                   \<lparr>item_name = ''Item'', quantity = Fin 1, unitPrice = Fin 0, totalPrice = Fin 0\<rparr>,
                   \<lparr>item_name = ''Item'', quantity = Fin 1, unitPrice = Fin 0, totalPrice = Fin 0\<rparr>],
          totals = \<lparr>subtotal = Fin 0, tax = Fin 0, total_amount = Fin 0, currency = ''USD''\<rparr>\<rparr>"
  by code_simp

text \<open>
  C10. An item whose \<^verbatim>\<open>quantity\<close> is present and coerces to zero (\<open>+0\<close> or
  \<open>-0\<close>) is returned, at its place in the list, with quantity 1.
\<close>

theorem zero_quantity_becomes_one:
  assumes "validateReceiptData rt d = Inr r"
    and "Get d ''items'' = Inr (Some (JArr xs))"
    and "i < length xs"
    and "Get (xs ! i) ''quantity'' = Inr (Some q)"
    and "ToNumber rt (Some q) = Inr n"
    and "n = Fin 0 \<or> n = NegZero"
  shows "i < length (items r) \<and> quantity (items r ! i) = Fin 1"
proof -
  from items_nth [OF assms(1-3)]
  have len: "i < length (items r)" and it: "normalize_item rt (xs ! i) = Inr (items r ! i)"
    by simp_all
  from normalize_item_Inr [OF it] assms(4,5)
  have "quantity (items r ! i) = num_or n (Fin 1)"
    by (auto simp: Number_or_Inr)
  with assms(6) len show ?thesis
    by (auto simp: num_or_def num_truthy_def)
qed

text \<open>C10 at the quantities \<open>0\<close>, \<^verbatim>\<open>"0"\<close> and \<open>-0\<close>.\<close>

theorem zero_quantity_witness:
  "ToNumber sample_runtime (Some (JStr ''0'')) = Inr (Fin 0) \<and>
   (\<exists>r. validateReceiptData sample_runtime zero_quantity_input = Inr r \<and>
       quantity (items r ! 0) = Fin 1 \<and> quantity (items r ! 1) = Fin 1 \<and>
       quantity (items r ! 2) = Fin 1)"
proof -
  let ?xs = "[JObj [(''quantity'', JNum (Fin 0))], JObj [(''quantity'', JStr ''0'')],
              JObj [(''quantity'', JNum NegZero)]]"
  have g: "Get zero_quantity_input ''items'' = Inr (Some (JArr ?xs))"
    by (simp add: zero_quantity_input_def)
  have n1: "ToNumber sample_runtime (Some (JStr ''0'')) = Inr (Fin 0)"
    by code_simp
  note c = zero_quantity_becomes_one [OF zero_quantity_run g]
  have "quantity (items (projr (validateReceiptData sample_runtime zero_quantity_input)) ! 0) = Fin 1"
    using c [of 0 "JNum (Fin 0)" "Fin 0"] by (simp add: zero_quantity_run)
  moreover have "quantity (items (projr (validateReceiptData sample_runtime zero_quantity_input)) ! 1) = Fin 1"
    using c [of 1 "JStr ''0''" "Fin 0"] n1 by (simp add: zero_quantity_run)
  moreover have "quantity (items (projr (validateReceiptData sample_runtime zero_quantity_input)) ! 2) = Fin 1"
    using c [of 2 "JNum NegZero" NegZero] by (simp add: zero_quantity_run)
  ultimately show ?thesis
    using n1 by (simp add: zero_quantity_run)
qed

subsection \<open>The clock\<close>

lemma ToString_clock [simp]:
  "ToString (rt\<lparr>Date_today := x, Date_now := y\<rparr>) v = ToString rt v"
proof (induction rt v rule: ToString.induct)
  case (5 rt xs)
  then have "map (\<lambda>v. if v = JNull then Inr [] else ToString (rt\<lparr>Date_today := x, Date_now := y\<rparr>) v) xs =
      map (\<lambda>v. if v = JNull then Inr [] else ToString rt v) xs"
    by simp
  then show ?case by (simp only: ToString.simps)
qed simp_all

lemma StringToNumber_clock [simp]:
  "StringToNumber (rt\<lparr>Date_today := x, Date_now := y\<rparr>) s = StringToNumber rt s"
  by (simp add: StringToNumber_def cong: option.case_cong if_cong)

lemma ToNumber_clock [simp]:
  "ToNumber (rt\<lparr>Date_today := x, Date_now := y\<rparr>) v = ToNumber rt v"
  by (cases "(rt, v)" rule: ToNumber.cases) (simp_all del: ToString.simps)

lemma String_or_clock [simp]:
  "String_or (rt\<lparr>Date_today := x, Date_now := y\<rparr>) obj k d = String_or rt obj k d"
  by (simp add: String_or_def)

lemma Number_or_clock [simp]:
  "Number_or (rt\<lparr>Date_today := x, Date_now := y\<rparr>) obj k d = Number_or rt obj k d"
  by (simp add: Number_or_def)

lemma normalize_item_clock [simp]:
  "normalize_item (rt\<lparr>Date_today := x, Date_now := y\<rparr>) = normalize_item rt"
  by (rule ext) (simp add: normalize_item_def)

lemma normalize_items_clock [simp]:
  "normalize_items (rt\<lparr>Date_today := x, Date_now := y\<rparr>) v = normalize_items rt v"
  by (simp add: normalize_items_def split: option.split json.split)

lemma String_or_truthy:
  "Get obj k = Inr (Some a) \<Longrightarrow> truthy (Some a) \<Longrightarrow> String_or rt obj k d = ToString rt a"
  by (simp add: String_or_def or_else_def)

lemma normalize_merchant_clock [simp]:
  "normalize_merchant (rt\<lparr>Date_today := x, Date_now := y\<rparr>) m = normalize_merchant rt m"
  by (simp add: normalize_merchant_def)

lemma normalize_totals_clock [simp]:
  "normalize_totals (rt\<lparr>Date_today := x, Date_now := y\<rparr>) t = normalize_totals rt t"
  by (simp add: normalize_totals_def)

lemma String_or_falsy:
  "Get obj k = Inr v \<Longrightarrow> \<not> truthy v \<Longrightarrow> String_or rt obj k d = Inr d"
  by (cases v) (simp_all add: String_or_def or_else_def)

lemma String_or_default:
  "Get obj k = Inr v \<Longrightarrow> truthy v \<Longrightarrow> String_or rt obj k d = String_or rt obj k d'"
  by (cases v) (simp_all add: String_or_def or_else_def)

lemma String_or_Inl: "Get obj k = Inl e \<Longrightarrow> String_or rt obj k d = Inl e"
  by (simp add: String_or_def)

lemma String_or_rel:
  "(\<exists>e. String_or rt obj k d = Inl e \<and> String_or rt obj k d' = Inl e) \<or>
   (\<exists>s s'. String_or rt obj k d = Inr s \<and> String_or rt obj k d' = Inr s' \<and>
      (\<forall>v. Get obj k = Inr v \<and> truthy v \<longrightarrow> s = s'))"
proof (cases "Get obj k")
  case (Inl e)
  then show ?thesis by (simp add: String_or_Inl)
next
  case (Inr v)
  show ?thesis
  proof (cases "truthy v")
    case True
    have eq: "String_or rt obj k d' = String_or rt obj k d"
      by (rule String_or_default [OF Inr True])
    show ?thesis
      by (cases "String_or rt obj k d") (simp_all add: eq)
  next
    case False
    have "String_or rt obj k d = Inr d" "String_or rt obj k d' = Inr d'"
      by (rule String_or_falsy [OF Inr False])+
    with Inr False show ?thesis by simp
  qed
qed

lemma normalize_transaction_Inr:
  "normalize_transaction rt t = Inr a \<Longrightarrow>
     (\<exists>d r p. String_or rt t ''date'' (Date_today rt) = Inr d \<and>
        String_or rt t ''receipt_number'' (''REC'' @ NumberToString rt (Date_now rt)) = Inr r \<and>
        String_or rt t ''payment_method'' ''Unknown'' = Inr p \<and>
        date a = trim d \<and> receipt_number a = trim r \<and> payment_method a = trim p)"
  by (auto simp: normalize_transaction_def bindE_Inr_iff)

lemma transaction_defaults_rel:
  "(bindE (String_or rt t ''date'' D') (\<lambda>d. bindE (String_or rt t ''receipt_number'' R') (\<lambda>r.
      bindE (String_or rt t ''payment_method'' P) (\<lambda>p.
        Inr \<lparr>date = trim d, receipt_number = trim r, payment_method = trim p\<rparr>))) = Inl e \<longleftrightarrow>
    bindE (String_or rt t ''date'' D) (\<lambda>d. bindE (String_or rt t ''receipt_number'' R) (\<lambda>r.
      bindE (String_or rt t ''payment_method'' P) (\<lambda>p.
        Inr \<lparr>date = trim d, receipt_number = trim r, payment_method = trim p\<rparr>))) = Inl e) \<and>
   (bindE (String_or rt t ''date'' D) (\<lambda>d. bindE (String_or rt t ''receipt_number'' R) (\<lambda>r.
      bindE (String_or rt t ''payment_method'' P) (\<lambda>p.
        Inr \<lparr>date = trim d, receipt_number = trim r, payment_method = trim p\<rparr>))) = Inr a \<and>
    bindE (String_or rt t ''date'' D') (\<lambda>d. bindE (String_or rt t ''receipt_number'' R') (\<lambda>r.
      bindE (String_or rt t ''payment_method'' P) (\<lambda>p.
        Inr \<lparr>date = trim d, receipt_number = trim r, payment_method = trim p\<rparr>))) = Inr a' \<longrightarrow>
      payment_method a' = payment_method a \<and>
      (\<forall>v. Get t ''date'' = Inr v \<and> truthy v \<longrightarrow> date a' = date a) \<and>
      (\<forall>v. Get t ''receipt_number'' = Inr v \<and> truthy v \<longrightarrow> receipt_number a' = receipt_number a))"
proof -
  from String_or_rel [of rt t "''date''" D D']
  show ?thesis
  proof (elim disjE exE conjE)
    fix e' assume "String_or rt t ''date'' D = Inl e'" "String_or rt t ''date'' D' = Inl e'"
    then show ?thesis by simp
  next
    fix s s' assume d: "String_or rt t ''date'' D = Inr s" "String_or rt t ''date'' D' = Inr s'"
      and ds: "\<forall>v. Get t ''date'' = Inr v \<and> truthy v \<longrightarrow> s = s'"
    from String_or_rel [of rt t "''receipt_number''" R R']
    show ?thesis
    proof (elim disjE exE conjE)
      fix e' assume "String_or rt t ''receipt_number'' R = Inl e'"
        "String_or rt t ''receipt_number'' R' = Inl e'"
      then show ?thesis by (simp add: d)
    next
      fix u u' assume r: "String_or rt t ''receipt_number'' R = Inr u"
          "String_or rt t ''receipt_number'' R' = Inr u'"
        and rs: "\<forall>v. Get t ''receipt_number'' = Inr v \<and> truthy v \<longrightarrow> u = u'"
      show ?thesis
      proof (cases "String_or rt t ''payment_method'' P")
        case (Inl e')
        then show ?thesis by (simp add: d r)
      next
        case (Inr p)
        with ds rs show ?thesis by (auto simp: d r)
      qed
    qed
  qed
qed

lemma normalize_transaction_clock:
  "(normalize_transaction (rt\<lparr>Date_today := x, Date_now := y\<rparr>) t = Inl e \<longleftrightarrow>
      normalize_transaction rt t = Inl e) \<and>
   (normalize_transaction rt t = Inr a \<and>
    normalize_transaction (rt\<lparr>Date_today := x, Date_now := y\<rparr>) t = Inr a' \<longrightarrow>
      payment_method a' = payment_method a \<and>
      (\<forall>v. Get t ''date'' = Inr v \<and> truthy v \<longrightarrow> date a' = date a) \<and>
      (\<forall>v. Get t ''receipt_number'' = Inr v \<and> truthy v \<longrightarrow> receipt_number a' = receipt_number a))"
proof -
  have n: "normalize_transaction rt t =
      bindE (String_or rt t ''date'' (Date_today rt)) (\<lambda>d.
      bindE (String_or rt t ''receipt_number'' (''REC'' @ NumberToString rt (Date_now rt))) (\<lambda>r.
      bindE (String_or rt t ''payment_method'' ''Unknown'') (\<lambda>p.
        Inr \<lparr>date = trim d, receipt_number = trim r, payment_method = trim p\<rparr>)))"
    by (simp only: normalize_transaction_def)
  have n': "normalize_transaction (rt\<lparr>Date_today := x, Date_now := y\<rparr>) t =
      bindE (String_or rt t ''date'' x) (\<lambda>d.
      bindE (String_or rt t ''receipt_number'' (''REC'' @ NumberToString rt y)) (\<lambda>r.
      bindE (String_or rt t ''payment_method'' ''Unknown'') (\<lambda>p.
        Inr \<lparr>date = trim d, receipt_number = trim r, payment_method = trim p\<rparr>)))"
    by (simp add: normalize_transaction_def)
  show ?thesis
    unfolding n n'
    by (rule transaction_defaults_rel)
qed

lemma record_chain_rel:
  assumes "\<forall>e. T' = Inl e \<longleftrightarrow> T = Inl e"
  shows "(bindE M (\<lambda>m. bindE T' (\<lambda>t. bindE I (\<lambda>is. bindE S (\<lambda>s.
            Inr \<lparr>merchant = m, transaction = t, items = is, totals = s\<rparr>)))) = Inl e \<longleftrightarrow>
          bindE M (\<lambda>m. bindE T (\<lambda>t. bindE I (\<lambda>is. bindE S (\<lambda>s.
            Inr \<lparr>merchant = m, transaction = t, items = is, totals = s\<rparr>)))) = Inl e) \<and>
         (bindE M (\<lambda>m. bindE T (\<lambda>t. bindE I (\<lambda>is. bindE S (\<lambda>s.
            Inr \<lparr>merchant = m, transaction = t, items = is, totals = s\<rparr>)))) = Inr r \<and>
          bindE M (\<lambda>m. bindE T' (\<lambda>t. bindE I (\<lambda>is. bindE S (\<lambda>s.
            Inr \<lparr>merchant = m, transaction = t, items = is, totals = s\<rparr>)))) = Inr r' \<longrightarrow>
            merchant r' = merchant r \<and> items r' = items r \<and> totals r' = totals r \<and>
            T = Inr (transaction r) \<and> T' = Inr (transaction r'))"
proof (cases M)
  case (Inl a)
  then show ?thesis by simp
next
  case m: (Inr m)
  show ?thesis
  proof (cases T)
    case (Inl a)
    with assms have "T' = Inl a" by simp
    with Inl m show ?thesis by simp
  next
    case t: (Inr t)
    with assms obtain t' where t': "T' = Inr t'" by (cases T') auto
    show ?thesis
    proof (cases I)
      case (Inl a)
      with m t t' show ?thesis by simp
    next
      case i: (Inr ys)
      show ?thesis
        by (cases S) (auto simp: m t t' i)
    qed
  qed
qed

lemma validate_clock:
  "(validateReceiptData (rt\<lparr>Date_today := x, Date_now := y\<rparr>) d = Inl e \<longleftrightarrow>
      validateReceiptData rt d = Inl e) \<and>
   (validateReceiptData rt d = Inr r \<and>
    validateReceiptData (rt\<lparr>Date_today := x, Date_now := y\<rparr>) d = Inr r' \<longrightarrow>
      merchant r' = merchant r \<and> items r' = items r \<and> totals r' = totals r \<and>
      payment_method (transaction r') = payment_method (transaction r) \<and>
      (\<forall>v. Get (section_of d ''transaction'') ''date'' = Inr v \<and> truthy v \<longrightarrow>
         date (transaction r') = date (transaction r)) \<and>
      (\<forall>v. Get (section_of d ''transaction'') ''receipt_number'' = Inr v \<and> truthy v \<longrightarrow>
         receipt_number (transaction r') = receipt_number (transaction r)))"
proof (cases "falsy (Some d) \<or> typeof d \<noteq> ''object''")
  case True
  then show ?thesis by (simp add: validateReceiptData_def)
next
  case False
  then obtain vm vt vs vi where g: "Get d ''merchant'' = Inr vm" "Get d ''transaction'' = Inr vt"
      "Get d ''totals'' = Inr vs" "Get d ''items'' = Inr vi"
    by (cases d) (simp_all add: falsy_def)
  let ?rt = "rt\<lparr>Date_today := x, Date_now := y\<rparr>"
  let ?t = "or_else vt (JObj [])"
  let ?M = "normalize_merchant rt (or_else vm (JObj []))"
  let ?I = "normalize_items rt vi"
  let ?S = "normalize_totals rt (or_else vs (JObj []))"
  have s: "section_of d ''transaction'' = ?t"
    by (simp add: section_of_def g)
  have v: "validateReceiptData rt d =
      bindE ?M (\<lambda>m. bindE (normalize_transaction rt ?t) (\<lambda>t. bindE ?I (\<lambda>is. bindE ?S (\<lambda>s.
        Inr \<lparr>merchant = m, transaction = t, items = is, totals = s\<rparr>))))"
    using False g by (simp add: validateReceiptData_def)
  have v': "validateReceiptData ?rt d =
      bindE ?M (\<lambda>m. bindE (normalize_transaction ?rt ?t) (\<lambda>t. bindE ?I (\<lambda>is. bindE ?S (\<lambda>s.
        Inr \<lparr>merchant = m, transaction = t, items = is, totals = s\<rparr>))))"
    using False g by (simp add: validateReceiptData_def)
  have c1: "\<forall>e. normalize_transaction ?rt ?t = Inl e \<longleftrightarrow> normalize_transaction rt ?t = Inl e"
    using normalize_transaction_clock [where rt = rt and x = x and y = y and t = ?t] by blast
  have rel: "(validateReceiptData ?rt d = Inl e \<longleftrightarrow> validateReceiptData rt d = Inl e) \<and>
         (validateReceiptData rt d = Inr r \<and> validateReceiptData ?rt d = Inr r' \<longrightarrow>
            merchant r' = merchant r \<and> items r' = items r \<and> totals r' = totals r \<and>
            normalize_transaction rt ?t = Inr (transaction r) \<and>
            normalize_transaction ?rt ?t = Inr (transaction r'))"
    unfolding v v' by (rule record_chain_rel [OF c1])
  show ?thesis
  proof (intro conjI impI)
    show "validateReceiptData ?rt d = Inl e \<longleftrightarrow> validateReceiptData rt d = Inl e"
      using rel by blast
  next
    assume h: "validateReceiptData rt d = Inr r \<and> validateReceiptData ?rt d = Inr r'"
    with rel have m: "merchant r' = merchant r" "items r' = items r" "totals r' = totals r"
      and t: "normalize_transaction rt ?t = Inr (transaction r)"
        "normalize_transaction ?rt ?t = Inr (transaction r')"
      by blast+
    from normalize_transaction_clock [where rt = rt and x = x and y = y and t = ?t
        and a = "transaction r" and a' = "transaction r'"] t
    have p: "payment_method (transaction r') = payment_method (transaction r)"
      and dd: "\<forall>v. Get ?t ''date'' = Inr v \<and> truthy v \<longrightarrow>
         date (transaction r') = date (transaction r)"
      and rr: "\<forall>v. Get ?t ''receipt_number'' = Inr v \<and> truthy v \<longrightarrow>
         receipt_number (transaction r') = receipt_number (transaction r)"
      by blast+
    show "merchant r' = merchant r" by (rule m)
    show "items r' = items r" by (rule m)
    show "totals r' = totals r" by (rule m)
    show "payment_method (transaction r') = payment_method (transaction r)" by (rule p)
    show "\<forall>v. Get (section_of d ''transaction'') ''date'' = Inr v \<and> truthy v \<longrightarrow>
         date (transaction r') = date (transaction r)"
      unfolding s by (rule dd)
    show "\<forall>v. Get (section_of d ''transaction'') ''receipt_number'' = Inr v \<and> truthy v \<longrightarrow>
         receipt_number (transaction r') = receipt_number (transaction r)"
      unfolding s by (rule rr)
  qed
qed

lemma validate_default_date:
  assumes "validateReceiptData rt d = Inr r"
  shows "(\<forall>v. Get (section_of d ''transaction'') ''date'' = Inr v \<and> \<not> truthy v \<longrightarrow>
           date (transaction r) = trim (Date_today rt)) \<and>
         (\<forall>v. Get (section_of d ''transaction'') ''receipt_number'' = Inr v \<and> \<not> truthy v \<longrightarrow>
           receipt_number (transaction r) = trim (''REC'' @ NumberToString rt (Date_now rt)))"
proof -
  from assms obtain vt where g: "Get d ''transaction'' = Inr vt"
      and n: "normalize_transaction rt (or_else vt (JObj [])) = Inr (transaction r)"
    by (auto simp: validateReceiptData_def bindE_Inr_iff split: if_splits)
  have s: "section_of d ''transaction'' = or_else vt (JObj [])"
    by (simp add: section_of_def g)
  from normalize_transaction_Inr [OF n]
  obtain dd rr where a: "String_or rt (or_else vt (JObj [])) ''date'' (Date_today rt) = Inr dd"
      "String_or rt (or_else vt (JObj [])) ''receipt_number''
         (''REC'' @ NumberToString rt (Date_now rt)) = Inr rr"
      "date (transaction r) = trim dd" "receipt_number (transaction r) = trim rr"
    by blast
  show ?thesis
    unfolding s
  proof (intro conjI allI impI)
    fix v assume h: "Get (or_else vt (JObj [])) ''date'' = Inr v \<and> \<not> truthy v"
    have "String_or rt (or_else vt (JObj [])) ''date'' (Date_today rt) = Inr (Date_today rt)"
      by (rule String_or_falsy) (use h in blast)+
    with a(1) have "dd = Date_today rt" by (simp only: sum.inject)
    with a(3) show "date (transaction r) = trim (Date_today rt)" by (simp only:)
  next
    fix v assume h: "Get (or_else vt (JObj [])) ''receipt_number'' = Inr v \<and> \<not> truthy v"
    have "String_or rt (or_else vt (JObj [])) ''receipt_number''
         (''REC'' @ NumberToString rt (Date_now rt)) = Inr (''REC'' @ NumberToString rt (Date_now rt))"
      by (rule String_or_falsy) (use h in blast)+
    with a(2) have "rr = ''REC'' @ NumberToString rt (Date_now rt)" by (simp only: sum.inject)
    with a(4) show "receipt_number (transaction r) =
        trim (''REC'' @ NumberToString rt (Date_now rt))"
      by (simp only:)
  qed
qed

lemma dated_result_clock_free:
  assumes "Get d ''transaction'' = Inr (Some t)" and "truthy (Some t)"
    and "Get t ''date'' = Inr (Some a)" and "truthy (Some a)"
    and "Get t ''receipt_number'' = Inr (Some b)" and "truthy (Some b)"
  shows "validateReceiptData (rt\<lparr>Date_today := x, Date_now := y\<rparr>) d = validateReceiptData rt d"
proof -
  have t: "or_else (Some t) (JObj []) = t"
    using assms(2) by (simp add: or_else_def)
  have "normalize_transaction (rt\<lparr>Date_today := x, Date_now := y\<rparr>) t = normalize_transaction rt t"
    unfolding normalize_transaction_def
    by (simp add: String_or_truthy [OF assms(3,4)] String_or_truthy [OF assms(5,6)])
  then show ?thesis
    by (simp add: validateReceiptData_def assms(1) t normalize_merchant_def normalize_totals_def)
qed

lemma empty_object_run:
  "validateReceiptData sample_runtime (JObj []) =
     Inr \<lparr>merchant = \<lparr>name = ''Unknown Merchant'', address = [], contact = []\<rparr>,
          transaction = \<lparr>date = ''2025-11-12'', receipt_number = ''REC1762905600000'',
                         payment_method = ''Unknown''\<rparr>,
          items = [],
          totals = \<lparr>subtotal = Fin 0, tax = Fin 0, total_amount = Fin 0, currency = ''USD''\<rparr>\<rparr>"
  by code_simp

text \<open>
  C4, as the code has it. The function reads the clock for the defaults of
  \<^verbatim>\<open>transaction.date\<close> and \<^verbatim>\<open>transaction.receipt_number\<close> and for nothing
  else. Four statements, for one input and runs at any two times. First: when the input's
  \<^verbatim>\<open>transaction\<close> has a truthy \<^verbatim>\<open>date\<close> and a truthy
  \<^verbatim>\<open>receipt_number\<close>, the two runs have the same result. Second: the two runs raise
  the same error, or both return. Third: two returned records agree in
  \<^verbatim>\<open>merchant\<close>, \<^verbatim>\<open>items\<close>, \<^verbatim>\<open>totals\<close> and
  \<^verbatim>\<open>transaction.payment_method\<close>, in \<^verbatim>\<open>transaction.date\<close> when the input's
  date is truthy, and in \<^verbatim>\<open>transaction.receipt_number\<close> when the input's receipt
  number is truthy. Fourth: in a returned record, \<^verbatim>\<open>transaction.date\<close> is the trimmed
  current date of the run when the input's date is absent or falsy, and
  \<^verbatim>\<open>transaction.receipt_number\<close> is the trimmed \<^verbatim>\<open>REC\<close> followed by the
  run's \<^verbatim>\<open>Date.now()\<close> when the input's receipt number is absent or falsy.
\<close>

theorem clock_reaches_only_date_and_receipt_number:
  "(Get d ''transaction'' = Inr (Some t) \<and> truthy (Some t) \<and>
    Get t ''date'' = Inr (Some a) \<and> truthy (Some a) \<and>
    Get t ''receipt_number'' = Inr (Some b) \<and> truthy (Some b) \<longrightarrow>
      validateReceiptData (rt\<lparr>Date_today := x, Date_now := y\<rparr>) d = validateReceiptData rt d) \<and>
   (\<forall>e. validateReceiptData (rt\<lparr>Date_today := x, Date_now := y\<rparr>) d = Inl e \<longleftrightarrow>
      validateReceiptData rt d = Inl e) \<and>
   (\<forall>r r'. validateReceiptData rt d = Inr r \<and>
      validateReceiptData (rt\<lparr>Date_today := x, Date_now := y\<rparr>) d = Inr r' \<longrightarrow>
      merchant r' = merchant r \<and> items r' = items r \<and> totals r' = totals r \<and>
      payment_method (transaction r') = payment_method (transaction r) \<and>
      (\<forall>v. Get (section_of d ''transaction'') ''date'' = Inr v \<and> truthy v \<longrightarrow>
         date (transaction r') = date (transaction r)) \<and>
      (\<forall>v. Get (section_of d ''transaction'') ''receipt_number'' = Inr v \<and> truthy v \<longrightarrow>
         receipt_number (transaction r') = receipt_number (transaction r))) \<and>
   (\<forall>r. validateReceiptData rt d = Inr r \<longrightarrow>
      (\<forall>v. Get (section_of d ''transaction'') ''date'' = Inr v \<and> \<not> truthy v \<longrightarrow>
         date (transaction r) = trim (Date_today rt)) \<and>
      (\<forall>v. Get (section_of d ''transaction'') ''receipt_number'' = Inr v \<and> \<not> truthy v \<longrightarrow>
         receipt_number (transaction r) = trim (''REC'' @ NumberToString rt (Date_now rt))))"
proof -
  have c1: "Get d ''transaction'' = Inr (Some t) \<and> truthy (Some t) \<and>
    Get t ''date'' = Inr (Some a) \<and> truthy (Some a) \<and>
    Get t ''receipt_number'' = Inr (Some b) \<and> truthy (Some b) \<longrightarrow>
      validateReceiptData (rt\<lparr>Date_today := x, Date_now := y\<rparr>) d = validateReceiptData rt d"
    using dated_result_clock_free [where d = d and t = t and a = a and b = b and rt = rt and x = x and y = y] by blast
  have c2: "\<forall>e. validateReceiptData (rt\<lparr>Date_today := x, Date_now := y\<rparr>) d = Inl e \<longleftrightarrow>
      validateReceiptData rt d = Inl e"
    using validate_clock [where rt = rt and x = x and y = y and d = d] by blast
  have c3: "\<forall>r r'. validateReceiptData rt d = Inr r \<and>
      validateReceiptData (rt\<lparr>Date_today := x, Date_now := y\<rparr>) d = Inr r' \<longrightarrow>
      merchant r' = merchant r \<and> items r' = items r \<and> totals r' = totals r \<and>
      payment_method (transaction r') = payment_method (transaction r) \<and>
      (\<forall>v. Get (section_of d ''transaction'') ''date'' = Inr v \<and> truthy v \<longrightarrow>
         date (transaction r') = date (transaction r)) \<and>
      (\<forall>v. Get (section_of d ''transaction'') ''receipt_number'' = Inr v \<and> truthy v \<longrightarrow>
         receipt_number (transaction r') = receipt_number (transaction r))"
  proof (intro allI)
    fix r r'
    from validate_clock [where rt = rt and x = x and y = y and d = d and r = r and r' = r']
    show "validateReceiptData rt d = Inr r \<and>
      validateReceiptData (rt\<lparr>Date_today := x, Date_now := y\<rparr>) d = Inr r' \<longrightarrow>
      merchant r' = merchant r \<and> items r' = items r \<and> totals r' = totals r \<and>
      payment_method (transaction r') = payment_method (transaction r) \<and>
      (\<forall>v. Get (section_of d ''transaction'') ''date'' = Inr v \<and> truthy v \<longrightarrow>
         date (transaction r') = date (transaction r)) \<and>
      (\<forall>v. Get (section_of d ''transaction'') ''receipt_number'' = Inr v \<and> truthy v \<longrightarrow>
         receipt_number (transaction r') = receipt_number (transaction r))"
      by (rule conjunct2)
  qed
  have c4: "\<forall>r. validateReceiptData rt d = Inr r \<longrightarrow>
      (\<forall>v. Get (section_of d ''transaction'') ''date'' = Inr v \<and> \<not> truthy v \<longrightarrow>
         date (transaction r) = trim (Date_today rt)) \<and>
      (\<forall>v. Get (section_of d ''transaction'') ''receipt_number'' = Inr v \<and> \<not> truthy v \<longrightarrow>
         receipt_number (transaction r) = trim (''REC'' @ NumberToString rt (Date_now rt)))"
    using validate_default_date [of rt d] by blast
  from c1 c2 c3 c4 show ?thesis by (intro conjI)
qed

text \<open>
  C4 as stated fails at the empty object: a run on the next day returns another
  \<^verbatim>\<open>transaction.date\<close>.
\<close>

theorem result_depends_on_clock:
  "validateReceiptData (sample_runtime\<lparr>Date_today := ''2025-11-13''\<rparr>) (JObj []) \<noteq>
   validateReceiptData sample_runtime (JObj [])"
  by code_simp

text \<open>
  The statement of C4 at an input with a date and a receipt number, and at the empty
  object, whose returned date is the current date of the run.
\<close>

theorem clock_dependence_witness:
  "validateReceiptData (sample_runtime\<lparr>Date_today := ''1999-12-31'', Date_now := Fin 0\<rparr>) dated_input =
     validateReceiptData sample_runtime dated_input \<and>
   Get (section_of (JObj []) ''transaction'') ''date'' = Inr None \<and>
   trim (Date_today sample_runtime) = ''2025-11-12'' \<and>
   (\<exists>r. validateReceiptData sample_runtime (JObj []) = Inr r \<and>
        date (transaction r) = trim (Date_today sample_runtime))"
proof -
  let ?R = "\<lparr>merchant = \<lparr>name = ''Unknown Merchant'', address = [], contact = []\<rparr>,
          transaction = \<lparr>date = ''2025-11-12'', receipt_number = ''REC1762905600000'',
                         payment_method = ''Unknown''\<rparr>,
          items = [],
          totals = \<lparr>subtotal = Fin 0, tax = Fin 0, total_amount = Fin 0, currency = ''USD''\<rparr>\<rparr>"
  have g: "Get (section_of (JObj []) ''transaction'') ''date'' = Inr None"
    by (simp add: section_of_def or_else_def)
  have tr: "trim (Date_today sample_runtime) = ''2025-11-12''"
    by code_simp
  have e: "validateReceiptData sample_runtime (JObj []) = Inr ?R"
    by (rule empty_object_run)
  have a: "validateReceiptData (sample_runtime\<lparr>Date_today := ''1999-12-31'', Date_now := Fin 0\<rparr>) dated_input =
     validateReceiptData sample_runtime dated_input"
    using clock_reaches_only_date_and_receipt_number [where d = dated_input
      and t = "JObj [(''date'', JStr ''2025-01-31''), (''receipt_number'', JStr ''R-77'')]"
      and a = "JStr ''2025-01-31''" and b = "JStr ''R-77''" and rt = sample_runtime
      and x = "''1999-12-31''" and y = "Fin 0", THEN conjunct1]
    by (simp add: dated_input_def)
  have d4: "\<forall>r. validateReceiptData sample_runtime (JObj []) = Inr r \<longrightarrow>
      (\<forall>v. Get (section_of (JObj []) ''transaction'') ''date'' = Inr v \<and> \<not> truthy v \<longrightarrow>
         date (transaction r) = trim (Date_today sample_runtime)) \<and>
      (\<forall>v. Get (section_of (JObj []) ''transaction'') ''receipt_number'' = Inr v \<and> \<not> truthy v \<longrightarrow>
         receipt_number (transaction r) =
           trim (''REC'' @ NumberToString sample_runtime (Date_now sample_runtime)))"
    by (rule clock_reaches_only_date_and_receipt_number [where d = "JObj []" and t = "JObj []" and a = "JObj []" and b = "JObj []"
          and rt = sample_runtime and x = "[]" and y = NaN,
          THEN conjunct2, THEN conjunct2, THEN conjunct2])
  have f: "\<not> truthy None" by simp
  have dt: "date (transaction ?R) = trim (Date_today sample_runtime)"
    by (rule d4 [rule_format, OF e, THEN conjunct1, rule_format, of None, OF conjI [OF g f]])
  have ex: "\<exists>r. validateReceiptData sample_runtime (JObj []) = Inr r \<and>
        date (transaction r) = trim (Date_today sample_runtime)"
    using e dt by (intro exI [where x = ?R] conjI)
  from a g tr ex show ?thesis by (intro conjI)
qed

subsection \<open>Defaults\<close>

text \<open>
  C3. The empty object is normalized to the named defaults; the input
  \<^verbatim>\<open>{items: "not-a-list"}\<close> is normalized with no items; and whenever the
  \<^verbatim>\<open>items\<close> member of an input is absent or not an array, a normalized result
  has no items.
\<close>

theorem normalize_defaults:
  "(\<exists>r. validateReceiptData rt (JObj []) = Inr r \<and> name (merchant r) = ''Unknown Merchant'' \<and>
        currency (totals r) = ''USD'' \<and> items r = [] \<and> payment_method (transaction r) = ''Unknown'') \<and>
   (\<exists>r. validateReceiptData rt (JObj [(''items'', JStr ''not-a-list'')]) = Inr r \<and> items r = []) \<and>
   (\<forall>d v r. Get d ''items'' = Inr v \<and> (\<forall>xs. v \<noteq> Some (JArr xs)) \<and> validateReceiptData rt d = Inr r
       \<longrightarrow> items r = [])"
proof (intro conjI allI impI)
  show "\<exists>r. validateReceiptData rt (JObj []) = Inr r \<and> name (merchant r) = ''Unknown Merchant'' \<and>
        currency (totals r) = ''USD'' \<and> items r = [] \<and> payment_method (transaction r) = ''Unknown''"
    by (simp add: validateReceiptData_def falsy_def or_else_def normalize_merchant_def
        normalize_transaction_def normalize_items_def normalize_totals_def String_or_def
        Number_or_def num_or_def num_truthy_def trim_def is_ws_def toUpperCase_def upper_char_def)
next
  show "\<exists>r. validateReceiptData rt (JObj [(''items'', JStr ''not-a-list'')]) = Inr r \<and> items r = []"
    by (simp add: validateReceiptData_def falsy_def or_else_def normalize_merchant_def
        normalize_transaction_def normalize_items_def normalize_totals_def String_or_def
        Number_or_def num_or_def num_truthy_def)
next
  fix d v r
  assume h: "Get d ''items'' = Inr v \<and> (\<forall>xs. v \<noteq> Some (JArr xs)) \<and> validateReceiptData rt d = Inr r"
  with validate_Inr_items [of rt d r] have "normalize_items rt v = Inr (items r)"
    by auto
  with h show "items r = []"
    by (auto simp: normalize_items_def split: option.splits json.splits)
qed

text \<open>The last part of C3 at \<^verbatim>\<open>{items: "not-a-list"}\<close>.\<close>

theorem normalize_defaults_witness:
  "Get (JObj [(''items'', JStr ''not-a-list'')]) ''items'' = Inr (Some (JStr ''not-a-list'')) \<and>
   (\<exists>r. validateReceiptData sample_runtime (JObj [(''items'', JStr ''not-a-list'')]) = Inr r \<and>
        items r = [] \<and> currency (totals r) = ''USD'')"
proof -
  have ev: "validateReceiptData sample_runtime (JObj [(''items'', JStr ''not-a-list'')]) =
     Inr \<lparr>merchant = \<lparr>name = ''Unknown Merchant'', address = [], contact = []\<rparr>,
          transaction = \<lparr>date = ''2025-11-12'', receipt_number = ''REC1762905600000'',
                         payment_method = ''Unknown''\<rparr>,
          items = [],
          totals = \<lparr>subtotal = Fin 0, tax = Fin 0, total_amount = Fin 0, currency = ''USD''\<rparr>\<rparr>"
    by code_simp
  have g: "Get (JObj [(''items'', JStr ''not-a-list'')]) ''items'' = Inr (Some (JStr ''not-a-list''))"
    by simp
  from normalize_defaults [of sample_runtime] have
    "\<forall>d v r. Get d ''items'' = Inr v \<and> (\<forall>xs. v \<noteq> Some (JArr xs)) \<and>
        validateReceiptData sample_runtime d = Inr r \<longrightarrow> items r = []"
    by blast
  with g ev show ?thesis by simp
qed

text \<open>
  C2 fails on the code. The sections \<^verbatim>\<open>merchant\<close>, \<^verbatim>\<open>transaction\<close> and
  \<^verbatim>\<open>totals\<close> are read through \<^verbatim>\<open>|| {}\<close>, the elements of
  \<^verbatim>\<open>items\<close> are not: on \<^verbatim>\<open>{"items": [null]}\<close> the read of
  \<^verbatim>\<open>item.name\<close> throws a \<^verbatim>\<open>TypeError\<close>, at every time and whatever the
  runtime prints.
\<close>

theorem null_item_throws_TypeError: "validateReceiptData rt (JObj [(''items'', JArr [JNull])]) = Inl (TypeError ''Cannot read properties of null'')"
  by (simp add: validateReceiptData_def falsy_def or_else_def normalize_merchant_def
        normalize_transaction_def normalize_items_def normalize_item_def String_or_def)

text \<open>
  A second way to a \<^verbatim>\<open>TypeError\<close>: a member named \<^verbatim>\<open>toString\<close> in an object
  that \<^verbatim>\<open>String(...)\<close> or \<^verbatim>\<open>Number(...)\<close> has to convert. What does hold
  of a result: no total is \<^verbatim>\<open>NaN\<close>.
\<close>

lemma own_toString_member_throws:
  "validateReceiptData rt (JObj [(''merchant'', JObj [(''name'', JObj [(''toString'', JNull)])])]) =
     Inl (TypeError ''Cannot convert object to primitive value'')"
  by (simp add: validateReceiptData_def falsy_def or_else_def normalize_merchant_def String_or_def)

lemma normalize_totals_Inr:
  "normalize_totals rt t = Inr s \<Longrightarrow>
     Number_or rt t ''subtotal'' (Fin 0) = Inr (subtotal s) \<and>
     Number_or rt t ''tax'' (Fin 0) = Inr (tax s) \<and>
     Number_or rt t ''total'' (Fin 0) = Inr (total_amount s)"
  by (auto simp: normalize_totals_def bindE_Inr_iff)

lemma totals_never_NaN:
  assumes "validateReceiptData rt d = Inr r"
  shows "subtotal (totals r) \<noteq> NaN \<and> tax (totals r) \<noteq> NaN \<and> total_amount (totals r) \<noteq> NaN"
proof -
  from assms obtain t where "normalize_totals rt t = Inr (totals r)"
    by (auto simp: validateReceiptData_def bindE_Inr_iff split: if_splits)
  from normalize_totals_Inr [OF this]
  obtain a b c where "subtotal (totals r) = num_or a (Fin 0)" "tax (totals r) = num_or b (Fin 0)"
      "total_amount (totals r) = num_or c (Fin 0)"
    by (auto simp: Number_or_Inr)
  then show ?thesis by (simp add: num_or_0)
qed

text \<open>
  When the function returns and when it throws, the call stack aside: it returns on the
  normalizable inputs and on no other. So an object root makes it throw only through a
  \<^verbatim>\<open>null\<close> element of \<^verbatim>\<open>items\<close> or through a value to convert that
  holds an object with a member named \<^verbatim>\<open>toString\<close>, or, in an engine, through
  arrays nested deeper than its stack allows, which raise a \<^verbatim>\<open>RangeError\<close> that
  these definitions do not have.
\<close>

lemma returns_simps [simp]: "returns (Inr x)" "\<not> returns (Inl e)"
  by (simp_all add: returns_def)

lemma returns_iff: "returns m \<longleftrightarrow> (\<exists>x. m = Inr x)"
  by (cases m) simp_all

lemma returns_bindE: "returns (bindE m f) \<longleftrightarrow> (\<exists>x. m = Inr x \<and> returns (f x))"
  by (cases m) simp_all

lemma returns_bindE_const: "(\<And>x. returns (f x) = b) \<Longrightarrow> returns (bindE m f) \<longleftrightarrow> returns m \<and> b"
  by (cases m) simp_all

lemma returns_join: "returns (join_strings rs) \<longleftrightarrow> list_all returns rs"
  by (induction rs rule: join_strings.induct) (simp_all add: returns_bindE_const)

lemma returns_ToString: "returns (ToString rt v) \<longleftrightarrow> convertible v"
proof (induction rt v rule: ToString.induct)
  case (5 rt xs)
  then show ?case
    by (auto simp: returns_join list_all_iff)
qed simp_all

lemma falsy_convertible: "\<not> truthy (Some v) \<Longrightarrow> convertible v"
  by (cases v) simp_all

lemma returns_String_or: "returns (String_or rt obj k d) \<longleftrightarrow> field_convertible obj k"
proof (cases "Get obj k")
  case (Inl e)
  then show ?thesis by (simp add: String_or_def field_convertible_def)
next
  case (Inr v)
  then show ?thesis
    by (cases v) (auto simp: String_or_def field_convertible_def or_else_def returns_ToString
        falsy_convertible simp del: ToString.simps)
qed

lemma returns_ToNumber: "returns (ToNumber rt v) \<longleftrightarrow> (case v of None \<Rightarrow> True | Some x \<Rightarrow> convertible x)"
  by (cases "(rt, v)" rule: ToNumber.cases)
     (simp_all add: returns_bindE_const returns_ToString del: ToString.simps)

lemma returns_Number_or: "returns (Number_or rt obj k d) \<longleftrightarrow> field_convertible obj k"
proof (cases "Get obj k")
  case (Inl e)
  then show ?thesis by (simp add: Number_or_def field_convertible_def)
next
  case (Inr v)
  then show ?thesis
    by (simp add: Number_or_def field_convertible_def returns_bindE_const returns_ToNumber
        split: option.splits)
qed

lemma returns_item: "returns (normalize_item rt item) \<longleftrightarrow> item_convertible item"
  by (simp add: normalize_item_def item_convertible_def returns_bindE_const returns_String_or
      returns_Number_or)

lemma returns_merchant:
  "returns (normalize_merchant rt m) \<longleftrightarrow>
     field_convertible m ''name'' \<and> field_convertible m ''address'' \<and> field_convertible m ''contact''"
  by (simp add: normalize_merchant_def returns_bindE_const returns_String_or)

lemma returns_transaction:
  "returns (normalize_transaction rt t) \<longleftrightarrow>
     field_convertible t ''date'' \<and> field_convertible t ''receipt_number'' \<and>
     field_convertible t ''payment_method''"
  by (simp add: normalize_transaction_def returns_bindE_const returns_String_or)

lemma returns_totals:
  "returns (normalize_totals rt t) \<longleftrightarrow>
     field_convertible t ''subtotal'' \<and> field_convertible t ''tax'' \<and>
     field_convertible t ''total'' \<and> field_convertible t ''currency''"
  by (simp add: normalize_totals_def returns_bindE_const returns_String_or returns_Number_or)

lemma returns_mapE: "returns (mapE f xs) \<longleftrightarrow> list_all (\<lambda>x. returns (f x)) xs"
  by (induction xs) (simp_all add: returns_bindE_const)

lemma returns_items:
  "returns (normalize_items rt v) \<longleftrightarrow>
     (case v of Some (JArr xs) \<Rightarrow> list_all item_convertible xs | _ \<Rightarrow> True)"
  by (simp add: normalize_items_def returns_mapE returns_item split: option.splits json.splits)

lemma validate_returns_iff: "returns (validateReceiptData rt d) \<longleftrightarrow> normalizable d"
proof (cases "case d of JArr xs \<Rightarrow> True | JObj kvs \<Rightarrow> True | _ \<Rightarrow> False")
  case False
  then have "validateReceiptData rt d = Inl (Error ''Invalid receipt data structure'')"
    by (cases d) (simp_all add: validateReceiptData_def falsy_def)
  with False show ?thesis by (simp add: normalizable_def)
next
  case True
  then obtain vm vt vs vi where g: "Get d ''merchant'' = Inr vm" "Get d ''transaction'' = Inr vt"
      "Get d ''totals'' = Inr vs" "Get d ''items'' = Inr vi"
    by (cases d) simp_all
  from True have c: "\<not> (falsy (Some d) \<or> typeof d \<noteq> ''object'')"
    by (cases d) (simp_all add: falsy_def)
  show ?thesis
    unfolding validateReceiptData_def if_not_P [OF c]
    using True g
    by (simp add: normalizable_def section_of_def returns_bindE_const returns_merchant
        returns_transaction returns_totals returns_items conj_ac)
qed

section \<open>The backoff executor\<close>

lemma retry_loop_stop:
  "\<not> int a < maxR \<Longrightarrow> retry_loop fn maxR base a le st =
     (Inl (case le of Some e \<Rightarrow> e | None \<Rightarrow> Error ''Max retries exceeded''), st)"
  by (subst retry_loop.simps) simp

lemma retry_loop_resolved:
  "int a < maxR \<Longrightarrow> fn (calls st) = (evs, Resolved v) \<Longrightarrow>
     retry_loop fn maxR base a le st = (Inr v, st\<lparr>calls := calls st + 1, trace := trace st @ evs\<rparr>)"
  by (subst retry_loop.simps) simp

lemma retry_loop_rejected:
  "int a < maxR \<Longrightarrow> fn (calls st) = (evs, Rejected err) \<Longrightarrow>
     retry_loop fn maxR base a le st =
       retry_loop fn maxR base (a + 1) (Some (to_Error err))
         (if int a < maxR - 1
          then st\<lparr>calls := calls st + 1,
                  delays := delays st @ [delay_for base a (to_Error err)],
                  trace := trace st @ evs @ [Console Warn, Sleep (delay_for base a (to_Error err))]\<rparr>
          else st\<lparr>calls := calls st + 1, trace := trace st @ evs\<rparr>)"
  by (subst retry_loop.simps) (simp add: Let_def)



lemma retry_loop_delays_inv:
  assumes "calls st = a" and "int a < maxR \<longrightarrow> length (delays st) = a"
    and "\<forall>i<length (delays st). delays st ! i = computed_delay base fn i \<and> failure_of (snd (fn i)) \<noteq> None"
  shows "\<forall>i<length (delays (snd (retry_loop fn maxR base a le st))).
           delays (snd (retry_loop fn maxR base a le st)) ! i = computed_delay base fn i \<and>
           failure_of (snd (fn i)) \<noteq> None"
  using assms
proof (induction "nat (maxR - int a)" arbitrary: a le st)
  case 0
  then have "\<not> int a < maxR" by simp
  with 0 show ?case by (simp add: retry_loop_stop)
next
  case (Suc m)
  then have a0: "int a < maxR" by linarith
  obtain evs r where fa: "fn (calls st) = (evs, r)" by (cases "fn (calls st)")
  show ?case
  proof (cases r)
    case (Resolved v)
    with fa have "fn (calls st) = (evs, Resolved v)" by simp
    from retry_loop_resolved [where fn = fn and st = st and base = base and le = le, OF a0 this]
      Suc.prems(3) show ?thesis by simp
  next
    case (Rejected e)
    with fa have fr: "fn (calls st) = (evs, Rejected e)" by simp
    let ?st = "(if int a < maxR - 1
          then st\<lparr>calls := calls st + 1,
                  delays := delays st @ [delay_for base a (to_Error e)],
                  trace := trace st @ evs @ [Console Warn, Sleep (delay_for base a (to_Error e))]\<rparr>
          else st\<lparr>calls := calls st + 1, trace := trace st @ evs\<rparr>)"
    have step: "retry_loop fn maxR base a le st = retry_loop fn maxR base (a + 1) (Some (to_Error e)) ?st"
      using retry_loop_rejected [where fn = fn and st = st and base = base and le = le, OF a0 fr]
      by simp
    have len: "length (delays st) = a" using Suc.prems(2) a0 by simp
    have cd: "computed_delay base fn a = delay_for base a (to_Error e)"
        and fo: "failure_of (snd (fn a)) \<noteq> None"
      using fr Suc.prems(1) by (simp_all add: computed_delay_def failure_of_def)
    have m: "m = nat (maxR - int (a + 1))" using Suc.hyps(2) by simp
    have c: "calls ?st = a + 1" using Suc.prems(1) by simp
    have l: "int (a + 1) < maxR \<longrightarrow> length (delays ?st) = a + 1" using len by simp
    have p: "\<forall>i<length (delays ?st). delays ?st ! i = computed_delay base fn i \<and>
               failure_of (snd (fn i)) \<noteq> None"
      using Suc.prems(3) len cd fo by (auto simp: nth_append less_Suc_eq)
    from Suc.hyps(1) [OF m c l p, of "Some (to_Error e)"] step show ?thesis by simp
  qed
qed

lemma retry_loop_trace:
  "set (trace (snd (retry_loop fn maxR base a le st))) \<subseteq>
     set (trace st) \<union> (\<Union>i. set (fst (fn i))) \<union> {Console Warn} \<union> range Sleep"
proof (induction "nat (maxR - int a)" arbitrary: a le st)
  case 0
  then have "\<not> int a < maxR" by simp
  then show ?case by (auto simp: retry_loop_stop)
next
  case (Suc m)
  then have a0: "int a < maxR" by linarith
  obtain evs r where fa: "fn (calls st) = (evs, r)" by (cases "fn (calls st)")
  then have evs: "set evs \<subseteq> (\<Union>i. set (fst (fn i)))"
    by (metis UN_upper UNIV_I fst_conv)
  show ?case
  proof (cases r)
    case (Resolved v)
    with fa have "fn (calls st) = (evs, Resolved v)" by simp
    from retry_loop_resolved [where fn = fn and st = st and base = base and le = le, OF a0 this]
      evs show ?thesis by auto
  next
    case (Rejected e)
    with fa have fr: "fn (calls st) = (evs, Rejected e)" by simp
    let ?st = "(if int a < maxR - 1
          then st\<lparr>calls := calls st + 1,
                  delays := delays st @ [delay_for base a (to_Error e)],
                  trace := trace st @ evs @ [Console Warn, Sleep (delay_for base a (to_Error e))]\<rparr>
          else st\<lparr>calls := calls st + 1, trace := trace st @ evs\<rparr>)"
    have step: "retry_loop fn maxR base a le st = retry_loop fn maxR base (a + 1) (Some (to_Error e)) ?st"
      using retry_loop_rejected [where fn = fn and st = st and base = base and le = le, OF a0 fr]
      by simp
    have m: "m = nat (maxR - int (a + 1))" using Suc.hyps(2) by simp
    have "set (trace ?st) \<subseteq> set (trace st) \<union> (\<Union>i. set (fst (fn i))) \<union> {Console Warn} \<union> range Sleep"
      using evs by auto
    with Suc.hyps(1) [OF m, of "Some (to_Error e)" ?st] step show ?thesis
      by auto
  qed
qed

lemma retry_loop_first_call:
  assumes "int a < maxR"
  shows "set (fst (fn (calls st))) \<subseteq> set (trace (snd (retry_loop fn maxR base a le st)))"
proof -
  have mono: "set (trace st') \<subseteq> set (trace (snd (retry_loop fn maxR base a' le' st')))" for a' le' st'
  proof (induction "nat (maxR - int a')" arbitrary: a' le' st')
    case 0
    then have "\<not> int a' < maxR" by simp
    then show ?case by (simp add: retry_loop_stop)
  next
    case (Suc m)
    then have a0: "int a' < maxR" by linarith
    obtain evs r where fa: "fn (calls st') = (evs, r)" by (cases "fn (calls st')")
    show ?case
    proof (cases r)
      case (Resolved v)
      with fa have "fn (calls st') = (evs, Resolved v)" by simp
      from retry_loop_resolved [where fn = fn and st = st' and base = base and le = le', OF a0 this]
      show ?thesis by auto
    next
      case (Rejected e)
      with fa have fr: "fn (calls st') = (evs, Rejected e)" by simp
      let ?st = "(if int a' < maxR - 1
          then st'\<lparr>calls := calls st' + 1,
                  delays := delays st' @ [delay_for base a' (to_Error e)],
                  trace := trace st' @ evs @ [Console Warn, Sleep (delay_for base a' (to_Error e))]\<rparr>
          else st'\<lparr>calls := calls st' + 1, trace := trace st' @ evs\<rparr>)"
      have step: "retry_loop fn maxR base a' le' st' =
          retry_loop fn maxR base (a' + 1) (Some (to_Error e)) ?st"
        using retry_loop_rejected [where fn = fn and st = st' and base = base and le = le', OF a0 fr]
        by simp
      have m: "m = nat (maxR - int (a' + 1))" using Suc.hyps(2) by simp
      have "set (trace st') \<subseteq> set (trace ?st)" by auto
      with Suc.hyps(1) [OF m, of ?st "Some (to_Error e)"] step show ?thesis
        by auto
    qed
  qed
  obtain evs r where fa: "fn (calls st) = (evs, r)" by (cases "fn (calls st)")
  show ?thesis
  proof (cases r)
    case (Resolved v)
    with fa have "fn (calls st) = (evs, Resolved v)" by simp
    from retry_loop_resolved [where fn = fn and st = st and base = base and le = le, OF assms this] fa
    show ?thesis by auto
  next
    case (Rejected e)
    with fa have fr: "fn (calls st) = (evs, Rejected e)" by simp
    let ?st = "(if int a < maxR - 1
          then st\<lparr>calls := calls st + 1,
                  delays := delays st @ [delay_for base a (to_Error e)],
                  trace := trace st @ evs @ [Console Warn, Sleep (delay_for base a (to_Error e))]\<rparr>
          else st\<lparr>calls := calls st + 1, trace := trace st @ evs\<rparr>)"
    have step: "retry_loop fn maxR base a le st = retry_loop fn maxR base (a + 1) (Some (to_Error e)) ?st"
      using retry_loop_rejected [where fn = fn and st = st and base = base and le = le, OF assms fr]
      by simp
    have "set evs \<subseteq> set (trace ?st)" by auto
    with mono [of ?st "a + 1" "Some (to_Error e)"] step fa show ?thesis by auto
  qed
qed

lemma flaky_run:
  "retryWithBackoff flaky_fetch 5 2000 =
     (Inr ''%PDF-1.4'',
      \<lparr>calls = 3, delays = [2000, 10000],
       trace = [FetchPdf, Console Warn, Sleep 2000, FetchPdf, Console Warn, Sleep 10000, FetchPdf]\<rparr>)"
  by code_simp



text \<open>
  C6. In every run, the delay after a call that failed with a message containing
  \<^verbatim>\<open>429\<close>, \<^verbatim>\<open>rate\<close> or \<^verbatim>\<open>quota\<close> is
  \<open>max (baseDelayMs * 2 ^ i) 10000\<close>, so at least 10000.
\<close>

theorem rate_limited_delay_floor:
  "\<forall>i<length (delays (snd (retryWithBackoff fn maxR base))). \<forall>e.
      snd (fn i) = Rejected e \<and> isRateLimit (message (to_Error e)) \<longrightarrow>
        delays (snd (retryWithBackoff fn maxR base)) ! i = max (base * 2 ^ i) 10000 \<and>
        10000 \<le> delays (snd (retryWithBackoff fn maxR base)) ! i"
proof -
  from retry_loop_delays_inv [where st = "\<lparr>calls = 0, delays = [], trace = []\<rparr>" and a = 0
      and fn = fn and maxR = maxR and base = base and le = None]
  have "\<forall>i<length (delays (snd (retryWithBackoff fn maxR base))).
           delays (snd (retryWithBackoff fn maxR base)) ! i = computed_delay base fn i"
    by (simp add: retryWithBackoff_def)
  then show ?thesis
    by (auto simp: computed_delay_def failure_of_def delay_for_def)
qed

text \<open>C6 at the second failure of the operation above: 4000 is raised to 10000.\<close>

theorem rate_limited_delay_floor_witness:
  "snd (flaky_fetch 1) = Rejected (Error ''PDF fetch failed: 429 Too Many Requests'') \<and>
   2000 * 2 ^ 1 < (10000 :: int) \<and>
   delays (snd (retryWithBackoff flaky_fetch 5 2000)) ! 1 = 10000"
proof -
  have len: "1 < length (delays (snd (retryWithBackoff flaky_fetch 5 2000)))"
    by (simp add: flaky_run)
  have f: "snd (flaky_fetch 1) = Rejected (Error ''PDF fetch failed: 429 Too Many Requests'')"
    by (simp add: flaky_fetch_def)
  have r: "isRateLimit (message (to_Error (Error ''PDF fetch failed: 429 Too Many Requests'')))"
    by code_simp
  from rate_limited_delay_floor [of flaky_fetch 5 2000] len f r
  have "delays (snd (retryWithBackoff flaky_fetch 5 2000)) ! 1 = max (2000 * 2 ^ 1) 10000"
    by blast
  with f show ?thesis by simp
qed

section \<open>The save step\<close>

text \<open>
  C7, as the code has it. When the mutation succeeds and the usage report fails, the
  step logs the error and throws it: the step fails, after one mutation and with no call
  that undoes it. When the mutation fails, the step throws its error and reports no
  usage.
\<close>

theorem usage_report_failure_fails_step:
  "save_to_database rt (Resolved uid) (Rejected e) rid x =
     (Inl e, [Console Log, Mutation (mutation_args rt rid x), Console Log, Track uid, Console Err]) \<and>
   save_to_database rt (Rejected e) track rid x =
     (Inl e, [Console Log, Mutation (mutation_args rt rid x), Console Err]) \<and>
   (\<forall>u. Track u \<notin> set (snd (save_to_database rt (Rejected e) track rid x)))"
  by (simp add: save_to_database_def)

text \<open>
  C7 as stated fails where the mutation resolves and the usage report rejects: the step
  does not succeed.
\<close>

theorem save_step_fails_when_track_fails:
  "fst (save_to_database sample_runtime (Resolved ''user_1'') (Rejected (Error ''track failed'')) ''r1''
     sample_receipt) = Inl (Error ''track failed'')"
  by (simp add: save_to_database_def)

section \<open>The extraction step\<close>

lemma fetch_events: "(\<Union>i. set (fst (fetch_pdf_op rt env i))) = {FetchPdf}"
  by (auto simp: fetch_pdf_op_def)

text \<open>
  C9, as the code has it. The key is checked after the document has been fetched. Without
  the key the step requests the document (with the retries of the backoff executor); it
  throws the error of the fetch when that fails, \<^verbatim>\<open>PDF file is empty\<close> on an empty
  body, and the configuration error otherwise; and it makes no request to the AI
  provider, neither the connectivity test nor \<^verbatim>\<open>generateContent\<close>.
\<close>

theorem missing_key_no_provider_request:
  assumes "key_missing env"
  shows "(case fst (retryWithBackoff (fetch_pdf_op rt env) 5 2000) of
            Inl e \<Rightarrow> fst (extract_pdf_data rt env) = Inl e
          | Inr pdfBuffer \<Rightarrow>
              fst (extract_pdf_data rt env) =
                Inl (if pdfBuffer = [] then Error ''PDF file is empty''
                     else Error ''GEMINI_API_KEY environment variable is not configured. Set it in .env.local'')) \<and>
         FetchPdf \<in> set (snd (extract_pdf_data rt env)) \<and>
         ProbeProvider \<notin> set (snd (extract_pdf_data rt env)) \<and>
         (\<forall>m. GenerateContent m \<notin> set (snd (extract_pdf_data rt env)))"
proof -
  obtain fetched st where r: "retryWithBackoff (fetch_pdf_op rt env) 5 2000 = (fetched, st)"
    by (cases "retryWithBackoff (fetch_pdf_op rt env) 5 2000")
  have sub: "set (trace st) \<subseteq> {FetchPdf, Console Warn} \<union> range Sleep"
    using retry_loop_trace [of "fetch_pdf_op rt env" 5 2000 0 None "\<lparr>calls = 0, delays = [], trace = []\<rparr>"] r
    by (auto simp: retryWithBackoff_def fetch_events)
  have first: "FetchPdf \<in> set (trace st)"
    using retry_loop_first_call [of 0 5 "fetch_pdf_op rt env" "\<lparr>calls = 0, delays = [], trace = []\<rparr>" 2000 None] r
    by (simp add: retryWithBackoff_def fetch_pdf_op_def)
  from sub have no: "ProbeProvider \<notin> set (trace st)" "\<And>m. GenerateContent m \<notin> set (trace st)"
    by auto
  show ?thesis
    using assms r first no
    by (cases fetched) (auto simp: extract_pdf_data_def Let_def)
qed

text \<open>
  C9 as stated fails where the document is served: the request for it stands in the
  events before the configuration error is thrown.
\<close>

theorem fetch_precedes_configuration_error:
  "extract_pdf_data sample_runtime env_without_key =
     (Inl (Error ''GEMINI_API_KEY environment variable is not configured. Set it in .env.local''),
      [Console Log, FetchPdf, Console Log, Console Err])"
  by code_simp

text \<open>The statement of C9 at the same environment.\<close>

theorem missing_key_witness:
  "key_missing env_without_key \<and>
   fst (extract_pdf_data sample_runtime env_without_key) =
     Inl (Error ''GEMINI_API_KEY environment variable is not configured. Set it in .env.local'') \<and>
   FetchPdf \<in> set (snd (extract_pdf_data sample_runtime env_without_key)) \<and>
   ProbeProvider \<notin> set (snd (extract_pdf_data sample_runtime env_without_key))"
proof -
  have k: "key_missing env_without_key"
    by (simp add: key_missing_def env_without_key_def)
  have f: "fst (retryWithBackoff (fetch_pdf_op sample_runtime env_without_key) 5 2000) = Inr ''%PDF-1.4''"
    by code_simp
  from missing_key_no_provider_request [OF k, of sample_runtime] f k show ?thesis by simp
qed

end
